theory Spec2Isabelle
  imports Main "HOL-Library.Word" "HOL-Library.AList" "HOL-Library.Sublist"
begin

section \<open>MintingManager: the minting-authority router\<close>

text \<open>
  The contract \<^verbatim>\<open>MintingManager\<close> is embedded as functions on a record of its storage.
  A transaction that reverts is a value \<open>Inl reason\<close>; since a revert undoes every write of
  the transaction, no state is returned with it. A transaction that completes returns
  \<open>Inr\<close> of the new state.
\<close>

subsection \<open>Value types\<close>

type_synonym address = "160 word"
type_synonym uint256 = "256 word"
type_synonym bytes32 = "256 word"
type_synonym bytes4 = "32 word"
type_synonym bytes = "8 word list"

text \<open>The revert reasons. The first four are the strings of the contract itself.\<close>

datatype error =
    TLD_NOT_VALID             \<comment> \<open>\<^verbatim>\<open>MintingManager: TLD_NOT_VALID\<close>\<close>
  | LABEL_EMPTY               \<comment> \<open>\<^verbatim>\<open>MintingManager: LABEL_EMPTY\<close>\<close>
  | SIGNER_IS_NOT_MINTER      \<comment> \<open>\<^verbatim>\<open>MintingManager: SIGNER_IS_NOT_MINTER\<close>\<close>
  | UNSUPPORTED_RELAY_CALL    \<comment> \<open>\<^verbatim>\<open>MintingManager: UNSUPPORTED_RELAY_CALL\<close>\<close>
  | CALLER_IS_NOT_MINTER      \<comment> \<open>raised by the \<^verbatim>\<open>onlyMinter\<close> guard of MinterRole\<close>
  | CALLER_IS_NOT_OWNER       \<comment> \<open>raised by the \<^verbatim>\<open>onlyOwner\<close> guard of Ownable\<close>
  | ALREADY_INITIALIZED       \<comment> \<open>raised by the \<^verbatim>\<open>initializer\<close> guard of Initializable\<close>
  | TOKEN_ALREADY_MINTED      \<comment> \<open>raised by the registry when the id exists\<close>

text \<open>
  The calls the contract makes to its three collaborators: the primary registry
  (\<^verbatim>\<open>UnsRegistry\<close>), the legacy minter (\<^verbatim>\<open>CryptoMinter\<close>) and the legacy resolver
  (\<^verbatim>\<open>CryptoResolver\<close>). The constructor names the callee and the method; the arguments are
  those of the call, in the order of the source.
\<close>

datatype ext_call =
    UnsRegistry_mint address uint256 string
  | UnsRegistry_safeMint address uint256 string bytes
  | UnsRegistry_mintWithRecords address uint256 string "string list" "string list"
  | UnsRegistry_safeMintWithRecords address uint256 string "string list" "string list" bytes
  | CryptoMinter_mintSLD address string
  | CryptoMinter_safeMintSLD address string bytes
  | CryptoMinter_mintSLDWithResolver address string address
  | CryptoMinter_safeMintSLDWithResolver address string address bytes
  | CryptoResolver_preconfigure "string list" "string list" uint256

subsection \<open>Storage\<close>

text \<open>
  The fields \<open>UnsRegistry\<close>, \<open>CryptoMinter\<close>, \<open>CryptoResolver\<close> and \<open>tlds\<close> (the
  mapping \<^verbatim>\<open>_tlds\<close>, whose default value is the empty string) are the storage the contract
  declares. \<open>this_address\<close> is \<^verbatim>\<open>address(this)\<close>. \<open>initialized\<close>, \<open>owner\<close> and
  \<open>minters\<close> are the storage of the inherited Initializable, Ownable and MinterRole.
  \<open>registry\<close> is the set of token ids that exist in the primary registry, and \<open>calls\<close>
  is the sequence of calls made to the collaborators so far, oldest first.
\<close>

record manager =
  this_address :: address
  initialized :: bool
  owner :: address
  minters :: "address set"
  UnsRegistry :: address
  CryptoMinter :: address
  CryptoResolver :: address
  tlds :: "uint256 \<Rightarrow> string"
  registry :: "uint256 set"
  calls :: "ext_call list"

subsection \<open>Constants\<close>

definition CRYPTO_TLD :: uint256 where
  "CRYPTO_TLD = 0x0f4a10a4f46c288cea365fcf45cccf0e9d901b945b9829ccdb54c10dc3cb7a6f"

definition WALLET_TLD :: uint256 where
  "WALLET_TLD = 0x1e3f482b3363eb4710dae2cb2183128e272eafbe137f686851c1caea32502230"

definition COIN_TLD :: uint256 where
  "COIN_TLD = 0x7674e7282552c15f203b9c4a6025aeaf28176ef7f5451b280f9bada3f8bc98e2"

definition BURN_ADDRESS :: address where
  "BURN_ADDRESS = 0xdead"

definition SIG_MINT :: bytes4 where
  "SIG_MINT = 0xae2ad903"

definition SIG_SAFE_MINT :: bytes4 where
  "SIG_SAFE_MINT = 0x4c1819e0"

definition SIG_SAFE_MINT_DATA :: bytes4 where
  "SIG_SAFE_MINT_DATA = 0x58839d6b"

definition SIG_MINT_WITH_RECORDS :: bytes4 where
  "SIG_MINT_WITH_RECORDS = 0x39ccf4d0"

definition SIG_SAFE_MINT_WITH_RECORDS :: bytes4 where
  "SIG_SAFE_MINT_WITH_RECORDS = 0x27bbd225"

definition SIG_SAFE_MINT_WITH_RECORDS_DATA :: bytes4 where
  "SIG_SAFE_MINT_WITH_RECORDS_DATA = 0x6a2d2256"

subsection \<open>Inherited guards and the collaborators\<close>

text \<open>
  Modelled from the spec: the \<^verbatim>\<open>initializer\<close> modifier of Initializable, which is not
  among the sources. The spec gives it as an explicit \<open>initialized\<close> flag, checked and set
  in one step: the body runs once, a second call fails.
\<close>

definition initializer :: "manager \<Rightarrow> (manager \<Rightarrow> error + manager) \<Rightarrow> error + manager" where
  "initializer s body =
     (if initialized s then Inl ALREADY_INITIALIZED else body (s\<lparr>initialized := True\<rparr>))"

text \<open>
  Modelled from the spec: the role set of MinterRole (\<^verbatim>\<open>roles/MinterRole.sol\<close>) and the
  owner check of Ownable, which are not among the sources. The spec gives the roles as an
  explicit capability set with add and check operations.
\<close>

definition isMinter :: "manager \<Rightarrow> address \<Rightarrow> bool" where
  "isMinter s account = (account \<in> minters s)"

definition addMinter :: "manager \<Rightarrow> address \<Rightarrow> manager" where
  "addMinter s account = s\<lparr>minters := insert account (minters s)\<rparr>"

definition onlyMinter :: "manager \<Rightarrow> address \<Rightarrow> (error + manager) \<Rightarrow> error + manager" where
  "onlyMinter s sender body = (if isMinter s sender then body else Inl CALLER_IS_NOT_MINTER)"

definition onlyOwner :: "manager \<Rightarrow> address \<Rightarrow> (error + manager) \<Rightarrow> error + manager" where
  "onlyOwner s sender body = (if owner s = sender then body else Inl CALLER_IS_NOT_OWNER)"

definition Ownable_init_unchained :: "manager \<Rightarrow> address \<Rightarrow> manager" where
  "Ownable_init_unchained s sender = s\<lparr>owner := sender\<rparr>"

definition MinterRole_init_unchained :: "manager \<Rightarrow> manager" where
  "MinterRole_init_unchained s = s"

text \<open>
  Modelled from the spec: the primary registry (\<^verbatim>\<open>IRegistry\<close>), which is not among the
  sources. A name is unminted or minted; minting an id that exists fails, minting a new
  one makes it exist. The four minting methods of the registry differ in their arguments
  only, which the logged call keeps. The receiver check of the safe variants belongs to
  the registry and the receiver and is not part of this model.
\<close>

definition UnsRegistry_exists :: "manager \<Rightarrow> uint256 \<Rightarrow> bool" where
  "UnsRegistry_exists s tokenId = (tokenId \<in> registry s)"

definition UnsRegistry_call :: "manager \<Rightarrow> uint256 \<Rightarrow> ext_call \<Rightarrow> error + manager" where
  "UnsRegistry_call s tokenId c =
     (if UnsRegistry_exists s tokenId then Inl TOKEN_ALREADY_MINTED
      else Inr (s\<lparr>registry := insert tokenId (registry s), calls := calls s @ [c]\<rparr>))"

text \<open>
  The legacy minter and resolver are outside the sources and the spec says nothing of
  their checks: a call to them is logged, and the model follows the path on which the
  collaborator accepts it.
\<close>

definition legacy_call :: "manager \<Rightarrow> ext_call \<Rightarrow> manager" where
  "legacy_call s c = s\<lparr>calls := calls s @ [c]\<rparr>"

subsection \<open>Encoding and hashing\<close>

text \<open>
  \<^verbatim>\<open>keccak256\<close> is a primitive of the platform; every function that hashes takes it as its
  first argument. \<open>bytes_of\<close> is \<^verbatim>\<open>bytes(label)\<close> (and \<^verbatim>\<open>abi.encodePacked\<close> of one string);
  \<open>encodePacked_uint256\<close> is the packed encoding of a 256-bit value: 32 bytes, most
  significant first.
\<close>

definition bytes_of :: "string \<Rightarrow> bytes" where
  "bytes_of label = map of_char label"

definition encodePacked_uint256 :: "uint256 \<Rightarrow> bytes" where
  "encodePacked_uint256 w = map (\<lambda>i. ucast (drop_bit (8 * (31 - i)) w)) [0..<32]"

definition validTld :: "manager \<Rightarrow> uint256 \<Rightarrow> (error + manager) \<Rightarrow> error + manager" where
  "validTld s tld body =
     (if length (bytes_of (tlds s tld)) > 0 then body else Inl TLD_NOT_VALID)"

definition childId :: "(bytes \<Rightarrow> bytes32) \<Rightarrow> uint256 \<Rightarrow> string \<Rightarrow> error + uint256" where
  "childId keccak256 tokenId label =
     (if length (bytes_of label) \<noteq> 0
      then Inr (keccak256 (encodePacked_uint256 tokenId
                           @ encodePacked_uint256 (keccak256 (bytes_of label))))
      else Inl LABEL_EMPTY)"

definition freeSLDLabel :: "string \<Rightarrow> string" where
  "freeSLDLabel label = ''udtestdev-'' @ label"

definition uri :: "manager \<Rightarrow> uint256 \<Rightarrow> string \<Rightarrow> string" where
  "uri s tld label = label @ ''.'' @ tlds s tld"

subsection \<open>Initialization\<close>

definition initialize ::
  "manager \<Rightarrow> address \<Rightarrow> address \<Rightarrow> address \<Rightarrow> address \<Rightarrow> error + manager" where
  "initialize s sender unsRegistry cryptoMinter cryptoResolver =
     initializer s (\<lambda>s0.
       let s1 = s0\<lparr>UnsRegistry := unsRegistry, CryptoMinter := cryptoMinter,
                   CryptoResolver := cryptoResolver\<rparr>;
           s2 = Ownable_init_unchained s1 sender;
           s3 = MinterRole_init_unchained s2;
           s4 = addMinter s3 (this_address s3);
           s5 = s4\<lparr>tlds := (tlds s4)(CRYPTO_TLD := ''crypto'')\<rparr>;
           s6 = s5\<lparr>tlds := (tlds s5)(WALLET_TLD := ''wallet'')\<rparr>;
           s7 = s6\<lparr>tlds := (tlds s6)(COIN_TLD := ''coin'')\<rparr>
       in case (if \<not> UnsRegistry_exists s7 WALLET_TLD
                then UnsRegistry_call s7 WALLET_TLD
                       (UnsRegistry_mint BURN_ADDRESS WALLET_TLD ''wallet'')
                else Inr s7) of
            Inl e \<Rightarrow> Inl e
          | Inr s8 \<Rightarrow>
              (if \<not> UnsRegistry_exists s8 COIN_TLD
               then UnsRegistry_call s8 COIN_TLD
                      (UnsRegistry_mint BURN_ADDRESS COIN_TLD ''coin'')
               else Inr s8))"

subsection \<open>The private minting functions\<close>

text \<open>
  The four private functions \<^verbatim>\<open>_mintSLD\<close>, \<^verbatim>\<open>_safeMintSLD\<close>, \<^verbatim>\<open>_mintSLDWithRecords\<close> and
  \<^verbatim>\<open>_safeMintSLDWithRecords\<close> carry the prefix \<open>priv_\<close> here, since the external functions
  have the same names without the underscore.
\<close>

definition priv_mintSLD ::
  "(bytes \<Rightarrow> bytes32) \<Rightarrow> manager \<Rightarrow> address \<Rightarrow> uint256 \<Rightarrow> string \<Rightarrow> error + manager" where
  "priv_mintSLD keccak256 s to tld label =
     (if tld = CRYPTO_TLD
      then Inr (legacy_call s (CryptoMinter_mintSLD to label))
      else case childId keccak256 tld label of
             Inl e \<Rightarrow> Inl e
           | Inr tokenId \<Rightarrow>
               UnsRegistry_call s tokenId (UnsRegistry_mint to tokenId (uri s tld label)))"

definition priv_safeMintSLD ::
  "(bytes \<Rightarrow> bytes32) \<Rightarrow> manager \<Rightarrow> address \<Rightarrow> uint256 \<Rightarrow> string \<Rightarrow> bytes
     \<Rightarrow> error + manager" where
  "priv_safeMintSLD keccak256 s to tld label data =
     (if tld = CRYPTO_TLD
      then Inr (legacy_call s (CryptoMinter_safeMintSLD to label data))
      else case childId keccak256 tld label of
             Inl e \<Rightarrow> Inl e
           | Inr tokenId \<Rightarrow>
               UnsRegistry_call s tokenId
                 (UnsRegistry_safeMint to tokenId (uri s tld label) data))"

definition priv_mintSLDWithRecords ::
  "(bytes \<Rightarrow> bytes32) \<Rightarrow> manager \<Rightarrow> address \<Rightarrow> uint256 \<Rightarrow> string
     \<Rightarrow> string list \<Rightarrow> string list \<Rightarrow> error + manager" where
  "priv_mintSLDWithRecords keccak256 s to tld label keys vals =
     (case childId keccak256 tld label of
        Inl e \<Rightarrow> Inl e
      | Inr tokenId \<Rightarrow>
          (if tld = CRYPTO_TLD
           then let s1 = legacy_call s
                           (CryptoMinter_mintSLDWithResolver to label (CryptoResolver s))
                in if length keys > 0
                   then Inr (legacy_call s1 (CryptoResolver_preconfigure keys vals tokenId))
                   else Inr s1
           else UnsRegistry_call s tokenId
                  (UnsRegistry_mintWithRecords to tokenId (uri s tld label) keys vals)))"

definition priv_safeMintSLDWithRecords ::
  "(bytes \<Rightarrow> bytes32) \<Rightarrow> manager \<Rightarrow> address \<Rightarrow> uint256 \<Rightarrow> string
     \<Rightarrow> string list \<Rightarrow> string list \<Rightarrow> bytes \<Rightarrow> error + manager" where
  "priv_safeMintSLDWithRecords keccak256 s to tld label keys vals data =
     (case childId keccak256 tld label of
        Inl e \<Rightarrow> Inl e
      | Inr tokenId \<Rightarrow>
          (if tld = CRYPTO_TLD
           then let s1 = legacy_call s
                           (CryptoMinter_safeMintSLDWithResolver to label (CryptoResolver s) data)
                in if length keys > 0
                   then Inr (legacy_call s1 (CryptoResolver_preconfigure keys vals tokenId))
                   else Inr s1
           else UnsRegistry_call s tokenId
                  (UnsRegistry_safeMintWithRecords to tokenId (uri s tld label) keys vals data)))"

subsection \<open>The external functions\<close>

text \<open>
  \<open>sender\<close> is \<^verbatim>\<open>_msgSender()\<close>. The modifiers run in the order the source lists them:
  \<^verbatim>\<open>onlyMinter\<close> before \<^verbatim>\<open>validTld\<close>, and both before the body. The two overloads of
  \<^verbatim>\<open>safeMintSLD\<close> and of \<^verbatim>\<open>safeMintSLDWithRecords\<close> are told apart by the suffix \<open>_data\<close>.
\<close>

definition mintSLD ::
  "(bytes \<Rightarrow> bytes32) \<Rightarrow> manager \<Rightarrow> address \<Rightarrow> address \<Rightarrow> uint256 \<Rightarrow> string
     \<Rightarrow> error + manager" where
  "mintSLD keccak256 s sender to tld label =
     onlyMinter s sender (validTld s tld (priv_mintSLD keccak256 s to tld label))"

definition safeMintSLD ::
  "(bytes \<Rightarrow> bytes32) \<Rightarrow> manager \<Rightarrow> address \<Rightarrow> address \<Rightarrow> uint256 \<Rightarrow> string
     \<Rightarrow> error + manager" where
  "safeMintSLD keccak256 s sender to tld label =
     onlyMinter s sender (validTld s tld (priv_safeMintSLD keccak256 s to tld label []))"

definition safeMintSLD_data ::
  "(bytes \<Rightarrow> bytes32) \<Rightarrow> manager \<Rightarrow> address \<Rightarrow> address \<Rightarrow> uint256 \<Rightarrow> string \<Rightarrow> bytes
     \<Rightarrow> error + manager" where
  "safeMintSLD_data keccak256 s sender to tld label data =
     onlyMinter s sender (validTld s tld (priv_safeMintSLD keccak256 s to tld label data))"

definition mintSLDWithRecords ::
  "(bytes \<Rightarrow> bytes32) \<Rightarrow> manager \<Rightarrow> address \<Rightarrow> address \<Rightarrow> uint256 \<Rightarrow> string
     \<Rightarrow> string list \<Rightarrow> string list \<Rightarrow> error + manager" where
  "mintSLDWithRecords keccak256 s sender to tld label keys vals =
     onlyMinter s sender
       (validTld s tld (priv_mintSLDWithRecords keccak256 s to tld label keys vals))"

definition safeMintSLDWithRecords ::
  "(bytes \<Rightarrow> bytes32) \<Rightarrow> manager \<Rightarrow> address \<Rightarrow> address \<Rightarrow> uint256 \<Rightarrow> string
     \<Rightarrow> string list \<Rightarrow> string list \<Rightarrow> error + manager" where
  "safeMintSLDWithRecords keccak256 s sender to tld label keys vals =
     onlyMinter s sender
       (validTld s tld (priv_safeMintSLDWithRecords keccak256 s to tld label keys vals []))"

definition safeMintSLDWithRecords_data ::
  "(bytes \<Rightarrow> bytes32) \<Rightarrow> manager \<Rightarrow> address \<Rightarrow> address \<Rightarrow> uint256 \<Rightarrow> string
     \<Rightarrow> string list \<Rightarrow> string list \<Rightarrow> bytes \<Rightarrow> error + manager" where
  "safeMintSLDWithRecords_data keccak256 s sender to tld label keys vals data =
     onlyMinter s sender
       (validTld s tld (priv_safeMintSLDWithRecords keccak256 s to tld label keys vals data))"

definition claim ::
  "(bytes \<Rightarrow> bytes32) \<Rightarrow> manager \<Rightarrow> address \<Rightarrow> uint256 \<Rightarrow> string \<Rightarrow> error + manager" where
  "claim keccak256 s sender tld label =
     validTld s tld (priv_mintSLD keccak256 s sender tld (freeSLDLabel label))"

definition claimTo ::
  "(bytes \<Rightarrow> bytes32) \<Rightarrow> manager \<Rightarrow> address \<Rightarrow> address \<Rightarrow> uint256 \<Rightarrow> string
     \<Rightarrow> error + manager" where
  "claimTo keccak256 s sender to tld label =
     validTld s tld (priv_mintSLD keccak256 s to tld (freeSLDLabel label))"

definition claimToWithRecords ::
  "(bytes \<Rightarrow> bytes32) \<Rightarrow> manager \<Rightarrow> address \<Rightarrow> address \<Rightarrow> uint256 \<Rightarrow> string
     \<Rightarrow> string list \<Rightarrow> string list \<Rightarrow> error + manager" where
  "claimToWithRecords keccak256 s sender to tld label keys vals =
     validTld s tld
       (priv_mintSLDWithRecords keccak256 s to tld (freeSLDLabel label) keys vals)"

definition setResolver :: "manager \<Rightarrow> address \<Rightarrow> address \<Rightarrow> error + manager" where
  "setResolver s sender resolver = onlyOwner s sender (Inr (s\<lparr>CryptoResolver := resolver\<rparr>))"

subsection \<open>Relay verification\<close>

text \<open>
  \<^verbatim>\<open>_verifyRelaySigner\<close> first runs the check of the base contract Relayer, which is not
  among the sources and is a parameter here (\<open>None\<close> when it passes).
  \<^verbatim>\<open>_verifyRelayCall\<close> is pure: it reads neither the storage nor the signer, and it
  ignores its second argument.
\<close>

definition verifyRelaySigner ::
  "(address \<Rightarrow> error option) \<Rightarrow> manager \<Rightarrow> address \<Rightarrow> error + unit" where
  "verifyRelaySigner super_verifyRelaySigner s signer =
     (case super_verifyRelaySigner signer of
        Some e \<Rightarrow> Inl e
      | None \<Rightarrow> if isMinter s signer then Inr () else Inl SIGNER_IS_NOT_MINTER)"

definition verifyRelayCall :: "bytes4 \<Rightarrow> bytes \<Rightarrow> error + unit" where
  "verifyRelayCall funcSig data =
     (let isSupported = (funcSig = SIG_MINT \<or>
                         funcSig = SIG_SAFE_MINT \<or>
                         funcSig = SIG_SAFE_MINT_DATA \<or>
                         funcSig = SIG_MINT_WITH_RECORDS \<or>
                         funcSig = SIG_SAFE_MINT_WITH_RECORDS \<or>
                         funcSig = SIG_SAFE_MINT_WITH_RECORDS_DATA)
      in if isSupported then Inr () else Inl UNSUPPORTED_RELAY_CALL)"

subsection \<open>The mint family as one interface\<close>

text \<open>
  A request names one of the nine external functions of the mint family with its
  arguments; \<open>perform\<close> is the dispatch on the function selector.
\<close>

datatype mint_request =
    MintSLD address uint256 string
  | SafeMintSLD address uint256 string
  | SafeMintSLD_data address uint256 string bytes
  | MintSLDWithRecords address uint256 string "string list" "string list"
  | SafeMintSLDWithRecords address uint256 string "string list" "string list"
  | SafeMintSLDWithRecords_data address uint256 string "string list" "string list" bytes
  | Claim uint256 string
  | ClaimTo address uint256 string
  | ClaimToWithRecords address uint256 string "string list" "string list"

fun perform :: "(bytes \<Rightarrow> bytes32) \<Rightarrow> manager \<Rightarrow> address \<Rightarrow> mint_request \<Rightarrow> error + manager" where
  "perform k s sender (MintSLD to tld label) = mintSLD k s sender to tld label"
| "perform k s sender (SafeMintSLD to tld label) = safeMintSLD k s sender to tld label"
| "perform k s sender (SafeMintSLD_data to tld label d) =
     safeMintSLD_data k s sender to tld label d"
| "perform k s sender (MintSLDWithRecords to tld label ks vs) =
     mintSLDWithRecords k s sender to tld label ks vs"
| "perform k s sender (SafeMintSLDWithRecords to tld label ks vs) =
     safeMintSLDWithRecords k s sender to tld label ks vs"
| "perform k s sender (SafeMintSLDWithRecords_data to tld label ks vs d) =
     safeMintSLDWithRecords_data k s sender to tld label ks vs d"
| "perform k s sender (Claim tld label) = claim k s sender tld label"
| "perform k s sender (ClaimTo to tld label) = claimTo k s sender to tld label"
| "perform k s sender (ClaimToWithRecords to tld label ks vs) =
     claimToWithRecords k s sender to tld label ks vs"

subsection \<open>Reading requests and logged calls\<close>

text \<open>
  The arguments of a request, and the two families it may belong to: the \<^verbatim>\<open>claim*\<close>
  functions, and the functions that take records.
\<close>

fun request_tld :: "mint_request \<Rightarrow> uint256" where
  "request_tld (MintSLD to tld label) = tld"
| "request_tld (SafeMintSLD to tld label) = tld"
| "request_tld (SafeMintSLD_data to tld label d) = tld"
| "request_tld (MintSLDWithRecords to tld label ks vs) = tld"
| "request_tld (SafeMintSLDWithRecords to tld label ks vs) = tld"
| "request_tld (SafeMintSLDWithRecords_data to tld label ks vs d) = tld"
| "request_tld (Claim tld label) = tld"
| "request_tld (ClaimTo to tld label) = tld"
| "request_tld (ClaimToWithRecords to tld label ks vs) = tld"

fun request_label :: "mint_request \<Rightarrow> string" where
  "request_label (MintSLD to tld label) = label"
| "request_label (SafeMintSLD to tld label) = label"
| "request_label (SafeMintSLD_data to tld label d) = label"
| "request_label (MintSLDWithRecords to tld label ks vs) = label"
| "request_label (SafeMintSLDWithRecords to tld label ks vs) = label"
| "request_label (SafeMintSLDWithRecords_data to tld label ks vs d) = label"
| "request_label (Claim tld label) = label"
| "request_label (ClaimTo to tld label) = label"
| "request_label (ClaimToWithRecords to tld label ks vs) = label"

fun is_claim :: "mint_request \<Rightarrow> bool" where
  "is_claim (Claim tld label) = True"
| "is_claim (ClaimTo to tld label) = True"
| "is_claim (ClaimToWithRecords to tld label ks vs) = True"
| "is_claim _ = False"

fun with_records :: "mint_request \<Rightarrow> bool" where
  "with_records (MintSLDWithRecords to tld label ks vs) = True"
| "with_records (SafeMintSLDWithRecords to tld label ks vs) = True"
| "with_records (SafeMintSLDWithRecords_data to tld label ks vs d) = True"
| "with_records (ClaimToWithRecords to tld label ks vs) = True"
| "with_records _ = False"

text \<open>
  What a logged call says: the label of a mint on the legacy minter, the token id and
  the URI of a mint on the primary registry, the token id of a call to the legacy resolver.
\<close>

fun legacy_mint_label :: "ext_call \<Rightarrow> string option" where
  "legacy_mint_label (CryptoMinter_mintSLD to label) = Some label"
| "legacy_mint_label (CryptoMinter_safeMintSLD to label d) = Some label"
| "legacy_mint_label (CryptoMinter_mintSLDWithResolver to label r) = Some label"
| "legacy_mint_label (CryptoMinter_safeMintSLDWithResolver to label r d) = Some label"
| "legacy_mint_label _ = None"

fun registry_token :: "ext_call \<Rightarrow> uint256 option" where
  "registry_token (UnsRegistry_mint to tokenId u) = Some tokenId"
| "registry_token (UnsRegistry_safeMint to tokenId u d) = Some tokenId"
| "registry_token (UnsRegistry_mintWithRecords to tokenId u ks vs) = Some tokenId"
| "registry_token (UnsRegistry_safeMintWithRecords to tokenId u ks vs d) = Some tokenId"
| "registry_token _ = None"

fun registry_uri :: "ext_call \<Rightarrow> string option" where
  "registry_uri (UnsRegistry_mint to tokenId u) = Some u"
| "registry_uri (UnsRegistry_safeMint to tokenId u d) = Some u"
| "registry_uri (UnsRegistry_mintWithRecords to tokenId u ks vs) = Some u"
| "registry_uri (UnsRegistry_safeMintWithRecords to tokenId u ks vs d) = Some u"
| "registry_uri _ = None"

fun resolver_token :: "ext_call \<Rightarrow> uint256 option" where
  "resolver_token (CryptoResolver_preconfigure ks vs tokenId) = Some tokenId"
| "resolver_token _ = None"

text \<open>
  The canonical hash as the spec writes it:
  \<^verbatim>\<open>uint256(keccak256(abi.encodePacked(tld, keccak256(abi.encodePacked(label)))))\<close>.
\<close>

definition canonicalHash :: "(bytes \<Rightarrow> bytes32) \<Rightarrow> uint256 \<Rightarrow> string \<Rightarrow> uint256" where
  "canonicalHash keccak256 tld label =
     keccak256 (encodePacked_uint256 tld @ encodePacked_uint256 (keccak256 (bytes_of label)))"

subsection \<open>A concrete contract for closed examples\<close>

text \<open>
  \<open>deployed a tokens\<close> is the storage of a contract deployed at address \<open>a\<close> and not
  yet initialized, beside a registry that holds \<open>tokens\<close>. \<open>sample_state\<close> is that
  contract at address \<open>0x4D\<close>, initialized beside an empty registry by the account
  \<open>0x01\<close>. \<open>sample_hash\<close> stands in for \<^verbatim>\<open>keccak256\<close> where a closed example must
  compute: it is the length of its input. \<open>tail_hash\<close> is a second stand-in, for the
  examples that must tell two labels apart: the length of its input plus its last byte.
\<close>

definition deployed :: "address \<Rightarrow> uint256 set \<Rightarrow> manager" where
  "deployed a tokens =
     \<lparr>this_address = a, initialized = False, owner = 0, minters = {},
      UnsRegistry = 0, CryptoMinter = 0, CryptoResolver = 0,
      tlds = (\<lambda>_. []), registry = tokens, calls = []\<rparr>"

definition sample_state :: manager where
  "sample_state =
     \<lparr>this_address = 0x4D, initialized = True, owner = 0x01, minters = {0x4D},
      UnsRegistry = 0x10, CryptoMinter = 0x11, CryptoResolver = 0x12,
      tlds = (\<lambda>_. [])(CRYPTO_TLD := ''crypto'', WALLET_TLD := ''wallet'', COIN_TLD := ''coin''),
      registry = {WALLET_TLD, COIN_TLD},
      calls = [UnsRegistry_mint BURN_ADDRESS WALLET_TLD ''wallet'',
               UnsRegistry_mint BURN_ADDRESS COIN_TLD ''coin'']\<rparr>"

definition sample_hash :: "bytes \<Rightarrow> bytes32" where
  "sample_hash bs = of_nat (length bs)"

definition tail_hash :: "bytes \<Rightarrow> bytes32" where
  "tail_hash bs = (if bs = [] then 0 else of_nat (length bs) + ucast (last bs))"

section \<open>Deployer: the deployment session\<close>

text \<open>
  The class \<^verbatim>\<open>Deployer\<close> of \<^verbatim>\<open>src/deployer.js\<close> is embedded over an explicit world: the
  directories and files of the persisted store, and a ledger that the tasks may change.
  A function that may throw returns a sum (\<open>Inl\<close> the error), or the world it reached
  together with the error when the world may have changed before the throw. Logging is
  not modelled.
\<close>

subsection \<open>JavaScript values\<close>

text \<open>
  The values the deployer reads and writes are those of JSON, and \<^verbatim>\<open>undefined\<close>. An object
  is the list of its properties in insertion order; a JavaScript object has one property
  per key. Numbers are integers here: the only numbers in the persisted record are block
  numbers and counts.
\<close>

datatype jsval =
    JUndefined
  | JNull
  | JBool bool
  | JNum int
  | JStr string
  | JArr "jsval list"
  | JObj "(string \<times> jsval) list"

datatype js_error =
    SyntaxError       \<comment> \<open>thrown by \<^verbatim>\<open>JSON.parse\<close>\<close>
  | TypeError         \<comment> \<open>a property read on \<^verbatim>\<open>null\<close> or \<^verbatim>\<open>undefined\<close>\<close>
  | Thrown string     \<comment> \<open>thrown by a task, a transaction or a library\<close>

fun truthy :: "jsval \<Rightarrow> bool" where
  "truthy JUndefined = False"
| "truthy JNull = False"
| "truthy (JBool b) = b"
| "truthy (JNum n) = (n \<noteq> 0)"
| "truthy (JStr s) = (s \<noteq> [])"
| "truthy (JArr xs) = True"
| "truthy (JObj kvs) = True"

definition lookup :: "(string \<times> jsval) list \<Rightarrow> string \<Rightarrow> jsval" where
  "lookup kvs k = (case map_of kvs k of None \<Rightarrow> JUndefined | Some v \<Rightarrow> v)"

text \<open>
  \<open>js_get v k\<close> is the property read \<^verbatim>\<open>v.k\<close>. It throws on \<^verbatim>\<open>null\<close> and \<^verbatim>\<open>undefined\<close>. The
  source reads the properties \<^verbatim>\<open>contracts\<close>, \<^verbatim>\<open>address\<close>, \<^verbatim>\<open>implementation\<close>,
  \<^verbatim>\<open>transaction\<close> and \<^verbatim>\<open>blockNumber\<close> only, which no string, number, boolean or array has.
  \<open>field\<close> is the same read without the throw, for stating properties.
\<close>

fun js_get :: "jsval \<Rightarrow> string \<Rightarrow> js_error + jsval" where
  "js_get JUndefined k = Inl TypeError"
| "js_get JNull k = Inl TypeError"
| "js_get (JObj kvs) k = Inr (lookup kvs k)"
| "js_get v k = Inr JUndefined"

definition field :: "jsval \<Rightarrow> string \<Rightarrow> jsval" where
  "field v k = (case v of JObj kvs \<Rightarrow> lookup kvs k | _ \<Rightarrow> JUndefined)"

text \<open>The decimal numeral of a number, as a property key or in a file name.\<close>

definition digit_char :: "nat \<Rightarrow> char" where
  "digit_char n = ''0123456789'' ! n"

function decimal :: "nat \<Rightarrow> string" where
  "decimal n = (if n < 10 then [digit_char n] else decimal (n div 10) @ [digit_char (n mod 10)])"
  by pat_completeness auto
termination
  by (relation "measure id") auto

declare decimal.simps [simp del]

text \<open>
  \<^verbatim>\<open>Object.entries\<close>: the properties of an object, the indexed elements of an array, the
  indexed characters of a string, nothing for a number or a boolean. The entries come in
  the order of the list (JavaScript puts the keys that are array indices first; no
  property stated here depends on the order).
\<close>

definition Object_entries :: "jsval \<Rightarrow> js_error + (string \<times> jsval) list" where
  "Object_entries v =
     (case v of
        JUndefined \<Rightarrow> Inl TypeError
      | JNull \<Rightarrow> Inl TypeError
      | JObj kvs \<Rightarrow> Inr kvs
      | JArr xs \<Rightarrow> Inr (zip (map decimal [0..<length xs]) xs)
      | JStr s \<Rightarrow> Inr (zip (map decimal [0..<length s]) (map (\<lambda>c. JStr [c]) s))
      | _ \<Rightarrow> Inr [])"

subsection \<open>The library function \<^verbatim>\<open>merge\<close>\<close>

text \<open>
  \<^verbatim>\<open>lodash.merge\<close> on the values above, after the library: \<open>baseMerge\<close> merges the
  properties of a source object into an object, one key after the other;
  \<open>baseMergeDeep objValue srcValue\<close> is the value a key holds afterwards, given the value
  it held and the value of the source (a source object is merged into an object, a source
  array into an array index by index, a fresh object or array takes the place of any
  other destination, \<^verbatim>\<open>undefined\<close> in the source keeps the destination, any other source
  value replaces it); \<open>assignMergeValue\<close> stores it, and does not store \<^verbatim>\<open>undefined\<close> over
  an existing key.

  The result is \<open>None\<close> outside the fragment that is modelled: a source object merged
  into an array under a key that is an index or \<^verbatim>\<open>length\<close> (the library then writes into
  the array), and a source array merged into an object that has a \<^verbatim>\<open>length\<close> (the library
  may take it for an array). Any other property written onto an array is dropped when the
  record is serialised, so the array is returned as it was.
\<close>

definition index_like :: "string \<Rightarrow> bool" where
  "index_like k = (k = ''length'' \<or> (k \<noteq> [] \<and> list_all (\<lambda>c. c \<in> set ''0123456789'') k))"

definition assignMergeValue ::
  "(string \<times> jsval) list \<Rightarrow> string \<Rightarrow> jsval \<Rightarrow> (string \<times> jsval) list" where
  "assignMergeValue object k v =
     (if v \<noteq> JUndefined \<or> k \<notin> set (map fst object) then AList.update k v object else object)"

fun baseMerge ::
  "(string \<times> jsval) list \<Rightarrow> (string \<times> jsval) list \<Rightarrow> (string \<times> jsval) list option"
and baseMergeDeep :: "jsval \<Rightarrow> jsval \<Rightarrow> jsval option"
and baseMergeArray :: "jsval list \<Rightarrow> jsval list \<Rightarrow> jsval list option" where
  "baseMerge object [] = Some object"
| "baseMerge object ((k, srcValue) # source) =
     (case baseMergeDeep (lookup object k) srcValue of
        None \<Rightarrow> None
      | Some newValue \<Rightarrow> baseMerge (assignMergeValue object k newValue) source)"
| "baseMergeDeep objValue (JObj sps) =
     (case objValue of
        JObj ops \<Rightarrow> map_option JObj (baseMerge ops sps)
      | JArr oxs \<Rightarrow> if list_ex index_like (map fst sps) then None else Some (JArr oxs)
      | _ \<Rightarrow> map_option JObj (baseMerge [] sps))"
| "baseMergeDeep objValue (JArr sxs) =
     (case objValue of
        JArr oxs \<Rightarrow> map_option JArr (baseMergeArray oxs sxs)
      | JObj ops \<Rightarrow> if ''length'' \<in> set (map fst ops) then None
                    else map_option JArr (baseMergeArray [] sxs)
      | _ \<Rightarrow> map_option JArr (baseMergeArray [] sxs))"
| "baseMergeDeep objValue JUndefined = Some objValue"
| "baseMergeDeep objValue srcValue = Some srcValue"
| "baseMergeArray oxs [] = Some oxs"
| "baseMergeArray [] (s # sxs) =
     (case baseMergeDeep JUndefined s of
        None \<Rightarrow> None
      | Some v \<Rightarrow> map_option ((#) v) (baseMergeArray [] sxs))"
| "baseMergeArray (x # oxs) (s # sxs) =
     (case baseMergeDeep x s of
        None \<Rightarrow> None
      | Some v \<Rightarrow> map_option ((#) v) (baseMergeArray oxs sxs))"

text \<open>
  \<open>merge object source\<close> for a source object. The library first turns the destination
  into an object: \<^verbatim>\<open>null\<close> and \<^verbatim>\<open>undefined\<close> become a fresh object; a string, number or
  boolean becomes a wrapper that serialises as the value itself.
\<close>

definition merge :: "jsval \<Rightarrow> jsval \<Rightarrow> jsval option" where
  "merge object source =
     (case source of
        JObj sps \<Rightarrow>
          (case object of
             JObj ops \<Rightarrow> map_option JObj (baseMerge ops sps)
           | JArr oxs \<Rightarrow> if list_ex index_like (map fst sps) then None else Some (JArr oxs)
           | JUndefined \<Rightarrow> map_option JObj (baseMerge [] sps)
           | JNull \<Rightarrow> map_option JObj (baseMerge [] sps)
           | _ \<Rightarrow> Some object)
      | _ \<Rightarrow> None)"

subsection \<open>Serialisation\<close>

text \<open>
  A file of the store is identified with the value its text denotes. \<open>json_of v\<close> is the
  value read back after \<^verbatim>\<open>JSON.stringify\<close> has written \<open>v\<close>: a property whose value is
  \<^verbatim>\<open>undefined\<close> is dropped, an array element that is \<^verbatim>\<open>undefined\<close> becomes \<^verbatim>\<open>null\<close>.
  \<open>is_json\<close> holds of the values \<^verbatim>\<open>JSON.parse\<close> returns: no \<^verbatim>\<open>undefined\<close> anywhere, and one
  property per key in every object.
\<close>

fun json_of :: "jsval \<Rightarrow> jsval"
and json_props :: "(string \<times> jsval) list \<Rightarrow> (string \<times> jsval) list"
and json_elems :: "jsval list \<Rightarrow> jsval list" where
  "json_of (JObj kvs) = JObj (json_props kvs)"
| "json_of (JArr xs) = JArr (json_elems xs)"
| "json_of v = v"
| "json_props [] = []"
| "json_props ((k, v) # kvs) =
     (if v = JUndefined then json_props kvs else (k, json_of v) # json_props kvs)"
| "json_elems [] = []"
| "json_elems (x # xs) = (if x = JUndefined then JNull else json_of x) # json_elems xs"

fun is_json :: "jsval \<Rightarrow> bool"
and is_json_props :: "(string \<times> jsval) list \<Rightarrow> bool"
and is_json_elems :: "jsval list \<Rightarrow> bool" where
  "is_json JUndefined = False"
| "is_json (JObj kvs) = (distinct (map fst kvs) \<and> is_json_props kvs)"
| "is_json (JArr xs) = is_json_elems xs"
| "is_json v = True"
| "is_json_props [] = True"
| "is_json_props ((k, v) # kvs) = (is_json v \<and> is_json_props kvs)"
| "is_json_elems [] = True"
| "is_json_elems (x # xs) = (is_json x \<and> is_json_elems xs)"

definition json_or_undefined :: "jsval \<Rightarrow> bool" where
  "json_or_undefined v = (v = JUndefined \<or> is_json v)"

subsection \<open>The world and the session\<close>

text \<open>
  A file is empty, holds the text of a value, or holds text that \<^verbatim>\<open>JSON.parse\<close> rejects.
  The files of the store are keyed by the base path and the chain id, as the path
  \<^verbatim>\<open>basePath/chainId.json\<close> is.
\<close>

datatype stored_file = EmptyFile | JsonText jsval | Garbage

record 'l world =
  dirs :: "string set"
  files :: "string \<times> nat \<Rightarrow> stored_file option"
  ledger :: 'l

record options =
  basePath :: string
  proxy :: bool

record options_arg =
  basePath_arg :: "string option"
  proxy_arg :: "bool option"

definition defaultOptions :: options where
  "defaultOptions = \<lparr>basePath = ''./.deployer'', proxy = True\<rparr>"

text \<open>
  The fields of a \<^verbatim>\<open>Deployer\<close>. \<open>artifacts\<close> keeps the names of the factories, \<open>accounts\<close>
  the named signer addresses, \<open>deploy_minters\<close> is the field \<^verbatim>\<open>minters\<close> and \<open>chainId\<close> is
  \<^verbatim>\<open>network.chainId\<close>. A task receives the session, which is the deployer without its
  list of tasks. A task has its tags and its two phases: \<open>ensureDependencies\<close> reads the
  world and returns a bundle or throws; \<open>run\<close> changes the world and may throw after it
  has changed it.
\<close>

record session =
  options :: options
  artifacts :: "string list"
  accounts :: "(string \<times> string) list"
  deploy_minters :: "string list"
  linkToken :: string
  chainId :: nat

record ('c, 'b, 'l) task =
  tags :: "string list"
  ensureDependencies :: "session \<Rightarrow> 'c \<Rightarrow> 'l world \<Rightarrow> js_error + 'b"
  run :: "session \<Rightarrow> 'b \<Rightarrow> 'l world \<Rightarrow> 'l world \<times> js_error option"

record ('c, 'b, 'l) deployer = session +
  tasks :: "('c, 'b, 'l) task list"

text \<open>
  A deployed contract as \<^verbatim>\<open>saveContractConfig\<close> reads it: its address, and its deployment
  transaction if there is one, given by what \<^verbatim>\<open>wait()\<close> resolves to (the receipt) or
  rejects with.
\<close>

record contract =
  address :: jsval
  deployTransaction :: "(js_error + jsval) option"

text \<open>The phases invoked by \<^verbatim>\<open>execute\<close>, with the position of the task in the list.\<close>

datatype event = EnsureDependencies nat | Run nat

subsection \<open>The constructor\<close>

text \<open>
  The four tasks are those of the module \<^verbatim>\<open>./tasks\<close>, which is not among the sources; they
  are parameters. \<open>mkdirSync\<close> is \<^verbatim>\<open>fs.mkdirSync\<close>, a primitive of the platform and a
  parameter: it returns the world with the directory made, or throws (the parent directory
  is missing, for one). The constructor calls it when the base directory does not exist,
  and a throw leaves no deployer.
\<close>

definition new_Deployer ::
  "(string \<Rightarrow> 'l world \<Rightarrow> js_error + 'l world)
     \<Rightarrow> options_arg \<Rightarrow> string list \<Rightarrow> (string \<times> string) list \<Rightarrow> string list \<Rightarrow> string \<Rightarrow> nat
     \<Rightarrow> ('c, 'b, 'l) task \<Rightarrow> ('c, 'b, 'l) task \<Rightarrow> ('c, 'b, 'l) task \<Rightarrow> ('c, 'b, 'l) task
     \<Rightarrow> 'l world \<Rightarrow> js_error + ('c, 'b, 'l) deployer \<times> 'l world" where
  "new_Deployer mkdirSync opts arts accs mints link network_chainId
       deployCNSTask deployUNSTask configureCNSTask upgradeUNSTask w =
     (let opts' = \<lparr>basePath = (case basePath_arg opts of
                                  None \<Rightarrow> basePath defaultOptions | Some p \<Rightarrow> p),
                    proxy = (case proxy_arg opts of
                               None \<Rightarrow> proxy defaultOptions | Some b \<Rightarrow> b)\<rparr>;
          this = \<lparr>options = opts', artifacts = arts, accounts = accs,
                  deploy_minters = mints, linkToken = link, chainId = network_chainId,
                  tasks = [deployCNSTask, deployUNSTask, configureCNSTask, upgradeUNSTask]\<rparr>
      in if basePath opts' \<notin> dirs w
         then (case mkdirSync (basePath opts') w of
                 Inl e \<Rightarrow> Inl e
               | Inr w' \<Rightarrow> Inr (this, w'))
         else Inr (this, w))"

subsection \<open>The persisted record\<close>

definition configPath :: "'a session_scheme \<Rightarrow> string \<times> nat" where
  "configPath this = (basePath (options this), chainId this)"

definition getDeployConfig :: "'a session_scheme \<Rightarrow> 'l world \<Rightarrow> js_error + jsval" where
  "getDeployConfig this w =
     (case files w (configPath this) of
        None \<Rightarrow> Inr (JObj [])
      | Some EmptyFile \<Rightarrow> Inr (JObj [])
      | Some (JsonText v) \<Rightarrow> Inr v
      | Some Garbage \<Rightarrow> Inl SyntaxError)"

definition emptyConfig :: "(string \<times> jsval) list" where
  "emptyConfig =
     [(''address'', JStr ''0x0000000000000000000000000000000000000000''),
      (''legacyAddresses'', JArr []),
      (''deploymentBlock'', JStr ''0x0'')]"

text \<open>
  The object literal that \<^verbatim>\<open>getNetworkConfig\<close> builds for one entry: the spread of
  \<open>emptyConfig\<close>, then the three properties the literal sets. \<open>toHexString\<close> is
  \<^verbatim>\<open>ethers.BigNumber.from(_).toHexString()\<close>, a library function and a parameter here; it
  throws on a value that is no number.
\<close>

definition contractConfig :: "(jsval \<Rightarrow> js_error + string) \<Rightarrow> jsval \<Rightarrow> js_error + jsval" where
  "contractConfig toHexString val =
     (case js_get val ''address'' of Inl e \<Rightarrow> Inl e | Inr a \<Rightarrow>
      case js_get val ''implementation'' of Inl e \<Rightarrow> Inl e | Inr i \<Rightarrow>
      case js_get val ''transaction'' of Inl e \<Rightarrow> Inl e | Inr t \<Rightarrow>
      case (if truthy t
            then (case js_get t ''blockNumber'' of
                    Inl e \<Rightarrow> Inl e
                  | Inr b \<Rightarrow> (case toHexString b of Inl e \<Rightarrow> Inl e | Inr h \<Rightarrow> Inr (JStr h)))
            else Inr (JStr ''0x0'')) of Inl e \<Rightarrow> Inl e | Inr d \<Rightarrow>
      Inr (JObj (AList.update ''deploymentBlock'' d
                  (AList.update ''implementation'' i
                    (AList.update ''address'' a emptyConfig)))))"

fun contracts_loop ::
  "(jsval \<Rightarrow> js_error + string) \<Rightarrow> (string \<times> jsval) list \<Rightarrow> (string \<times> jsval) list
     \<Rightarrow> js_error + (string \<times> jsval) list" where
  "contracts_loop toHexString [] contracts = Inr contracts"
| "contracts_loop toHexString ((key, val) # rest) contracts =
     (case contractConfig toHexString val of
        Inl e \<Rightarrow> Inl e
      | Inr c \<Rightarrow> contracts_loop toHexString rest (AList.update key c contracts))"

definition getNetworkConfig ::
  "(jsval \<Rightarrow> js_error + string) \<Rightarrow> 'a session_scheme \<Rightarrow> 'l world \<Rightarrow> js_error + jsval" where
  "getNetworkConfig toHexString this w =
     (case getDeployConfig this w of Inl e \<Rightarrow> Inl e | Inr config \<Rightarrow>
      case js_get config ''contracts'' of Inl e \<Rightarrow> Inl e | Inr c \<Rightarrow>
      case Object_entries (if truthy c then c else JObj []) of Inl e \<Rightarrow> Inl e | Inr es \<Rightarrow>
      case contracts_loop toHexString es [] of Inl e \<Rightarrow> Inl e | Inr contracts \<Rightarrow>
      Inr (JObj [(''networks'',
                  JObj [(decimal (chainId this), JObj [(''contracts'', JObj contracts)])])]))"

text \<open>
  \<^verbatim>\<open>saveContractConfig\<close> reads the record, awaits the receipt, merges and writes. The outer
  \<open>None\<close> is that of \<open>merge\<close>; otherwise the result is the world reached and the error
  thrown, if any.
\<close>

definition saveContractConfig ::
  "'a session_scheme \<Rightarrow> string \<Rightarrow> contract \<Rightarrow> jsval \<Rightarrow> 'l world
     \<Rightarrow> ('l world \<times> js_error option) option" where
  "saveContractConfig this name contract implAddress w =
     (case getDeployConfig this w of
        Inl e \<Rightarrow> Some (w, Some e)
      | Inr config \<Rightarrow>
          (case (case deployTransaction contract of
                   None \<Rightarrow> Inr JUndefined
                 | Some receipt \<Rightarrow> receipt) of
             Inl e \<Rightarrow> Some (w, Some e)
           | Inr transaction \<Rightarrow>
               (case merge config
                       (JObj [(''contracts'',
                               JObj [(name,
                                      JObj [(''address'', address contract),
                                            (''implementation'', implAddress),
                                            (''transaction'', transaction)])])]) of
                  None \<Rightarrow> None
                | Some config' \<Rightarrow>
                    Some (w\<lparr>files := (files w)(configPath this \<mapsto> JsonText (json_of config'))\<rparr>,
                          None))))"

subsection \<open>Running the tasks\<close>

text \<open>
  \<open>toLowerCase\<close> is \<^verbatim>\<open>String.prototype.toLowerCase\<close>, a primitive of the platform and a
  parameter of every function that selects tasks. \<open>requested_tags\<close> is \<^verbatim>\<open>tags || []\<close>,
  where \<open>tags_arg\<close> is the argument \<^verbatim>\<open>tags\<close> of \<^verbatim>\<open>execute\<close>, \<open>None\<close> when it is omitted.

  \<open>run_tasks\<close> is the loop of \<^verbatim>\<open>execute\<close> over \<^verbatim>\<open>this.tasks\<close>, with the position \<open>i\<close> of the
  task at the head. It returns the world reached, the phases invoked in order, and the
  error that stopped it, if any.
\<close>

definition requested_tags :: "string list option \<Rightarrow> string list" where
  "requested_tags tags_arg = (case tags_arg of None \<Rightarrow> [] | Some ts \<Rightarrow> ts)"

fun run_tasks ::
  "(string \<Rightarrow> string) \<Rightarrow> session \<Rightarrow> string list \<Rightarrow> 'c \<Rightarrow> nat \<Rightarrow> ('c, 'b, 'l) task list
     \<Rightarrow> 'l world \<Rightarrow> 'l world \<times> event list \<times> js_error option" where
  "run_tasks toLowerCase this requested config i [] w = (w, [], None)"
| "run_tasks toLowerCase this requested config i (task # rest) w =
     (if \<not> list_ex (\<lambda>t. toLowerCase t \<in> set (tags task)) requested
      then run_tasks toLowerCase this requested config (Suc i) rest w
      else case ensureDependencies task this config w of
             Inl e \<Rightarrow> (w, [EnsureDependencies i], Some e)
           | Inr dependencies \<Rightarrow>
               (case run task this dependencies w of
                  (w', Some e) \<Rightarrow> (w', [EnsureDependencies i, Run i], Some e)
                | (w', None) \<Rightarrow>
                    (case run_tasks toLowerCase this requested config (Suc i) rest w' of
                       (w'', evs, r) \<Rightarrow> (w'', EnsureDependencies i # Run i # evs, r))))"

definition execute ::
  "(string \<Rightarrow> string) \<Rightarrow> (jsval \<Rightarrow> js_error + string) \<Rightarrow> ('c, 'b, 'l) deployer
     \<Rightarrow> string list option \<Rightarrow> 'c \<Rightarrow> 'l world
     \<Rightarrow> 'l world \<times> event list \<times> (js_error + jsval)" where
  "execute toLowerCase toHexString this tags_arg config w =
     (let requested = requested_tags tags_arg
      in case run_tasks toLowerCase (session.truncate this) requested config 0 (tasks this) w of
           (w', evs, Some e) \<Rightarrow> (w', evs, Inl e)
         | (w', evs, None) \<Rightarrow> (w', evs, getNetworkConfig toHexString this w'))"

subsection \<open>Stating the selection and the run of the tasks\<close>

text \<open>
  In the words of the spec: a task is selected when its tag set meets the requested tags
  in lower case (\<open>selected\<close>); the selected tasks run one after the other, each its
  dependency phase and then its run phase on the bundle the dependency phase returned, and a
  failure in either phase ends the run in the world reached (\<open>task_step\<close>,
  \<open>run_in_order\<close>, which know nothing of tags). The expected phases are, for the
  positions of the selected tasks in increasing order, the dependency phase followed by the
  run phase; \<open>events_from\<close> is the same with the positions counted from \<open>i\<close>.
\<close>

definition selected :: "(string \<Rightarrow> string) \<Rightarrow> string list \<Rightarrow> ('c, 'b, 'l) task \<Rightarrow> bool" where
  "selected toLowerCase requested task =
     (set (map toLowerCase requested) \<inter> set (tags task) \<noteq> {})"

definition task_step ::
  "session \<Rightarrow> 'c \<Rightarrow> ('c, 'b, 'l) task \<Rightarrow> 'l world \<Rightarrow> 'l world \<times> js_error option" where
  "task_step this config task w =
     (case ensureDependencies task this config w of
        Inl e \<Rightarrow> (w, Some e)
      | Inr bundle \<Rightarrow> run task this bundle w)"

fun run_in_order ::
  "session \<Rightarrow> 'c \<Rightarrow> ('c, 'b, 'l) task list \<Rightarrow> 'l world \<Rightarrow> 'l world \<times> js_error option" where
  "run_in_order this config [] w = (w, None)"
| "run_in_order this config (task # rest) w =
     (case task_step this config task w of
        (w', Some e) \<Rightarrow> (w', Some e)
      | (w', None) \<Rightarrow> run_in_order this config rest w')"

definition expected_events ::
  "(string \<Rightarrow> string) \<Rightarrow> string list \<Rightarrow> ('c, 'b, 'l) task list \<Rightarrow> event list" where
  "expected_events toLowerCase requested ts =
     concat (map (\<lambda>i. [EnsureDependencies i, Run i])
               (filter (\<lambda>i. selected toLowerCase requested (ts ! i)) [0..<length ts]))"

definition events_from ::
  "(string \<Rightarrow> string) \<Rightarrow> string list \<Rightarrow> nat \<Rightarrow> ('c, 'b, 'l) task list \<Rightarrow> event list" where
  "events_from toLowerCase requested i ts =
     concat (map (\<lambda>j. [EnsureDependencies (i + j), Run (i + j)])
               (filter (\<lambda>j. selected toLowerCase requested (ts ! j)) [0..<length ts]))"

subsection \<open>A concrete session for closed examples\<close>

text \<open>
  \<open>sample_toHexString\<close> stands in for the library's conversion where a closed example
  must compute: the hexadecimal numeral of a block number that is not negative, padded to
  an even number of digits. The sample store holds one record for chain 31337, with two
  contracts.
\<close>

definition hex_digit :: "nat \<Rightarrow> char" where
  "hex_digit n = ''0123456789abcdef'' ! n"

function hex_digits :: "nat \<Rightarrow> string" where
  "hex_digits n = (if n < 16 then [hex_digit n] else hex_digits (n div 16) @ [hex_digit (n mod 16)])"
  by pat_completeness auto
termination
  by (relation "measure id") auto

declare hex_digits.simps [simp del]

definition sample_toHexString :: "jsval \<Rightarrow> js_error + string" where
  "sample_toHexString v =
     (case v of
        JNum n \<Rightarrow>
          if 0 \<le> n
          then (let h = hex_digits (nat n)
                in Inr (''0x'' @ (if odd (length h) then ''0'' @ h else h)))
          else Inl (Thrown ''negative block number'')
      | _ \<Rightarrow> Inl (Thrown ''invalid BigNumber value''))"

definition sample_session :: session where
  "sample_session =
     \<lparr>options = defaultOptions, artifacts = [''UNSRegistry'', ''MintingManager''],
      accounts = [(''owner'', ''0xf39fd6e51aad88f6f4ce6ab8827279cfffb92266'')],
      deploy_minters = [''0xf39fd6e51aad88f6f4ce6ab8827279cfffb92266''],
      linkToken = [], chainId = 31337\<rparr>"

definition sample_record :: jsval where
  "sample_record =
     JObj [(''contracts'',
            JObj [(''UNSRegistry'',
                   JObj [(''address'', JStr ''0x5FbDB2315678afecb367f032d93F642f64180aa3''),
                         (''legacyAddresses'',
                          JArr [JStr ''0x0165878A594ca255338adfa4d48449f69242Eb8F'']),
                         (''transaction'', JObj [(''blockNumber'', JNum 26)])]),
                  (''MintingManager'',
                   JObj [(''address'', JStr ''0xe7f1725E7734CE288F8367e1Bb143E90bb3F0512''),
                         (''implementation'',
                          JStr ''0x9fE46736679d2D9a65F0992F2272dE9f3c7fa6e0'')])])]"

definition sample_world :: "unit world" where
  "sample_world =
     \<lparr>dirs = {''./.deployer''},
      files = [(''./.deployer'', 31337) \<mapsto> JsonText sample_record],
      ledger = ()\<rparr>"

definition sample_view :: jsval where
  "sample_view =
     JObj [(''networks'',
       JObj [(''31337'',
         JObj [(''contracts'',
           JObj [(''UNSRegistry'',
                  JObj [(''address'', JStr ''0x5FbDB2315678afecb367f032d93F642f64180aa3''),
                        (''legacyAddresses'', JArr []),
                        (''deploymentBlock'', JStr ''0x1a''),
                        (''implementation'', JUndefined)]),
                 (''MintingManager'',
                  JObj [(''address'', JStr ''0xe7f1725E7734CE288F8367e1Bb143E90bb3F0512''),
                        (''legacyAddresses'', JArr []),
                        (''deploymentBlock'', JStr ''0x0''),
                        (''implementation'',
                         JStr ''0x9fE46736679d2D9a65F0992F2272dE9f3c7fa6e0'')])])])])]"

text \<open>
  \<open>ascii_toLowerCase\<close> stands in for \<^verbatim>\<open>toLowerCase\<close> in closed examples; on strings of
  ASCII it is what the platform computes. \<open>sample_mkdirSync\<close> makes a directory that does
  not exist. The ledger of \<open>sample_ledger_world\<close> is the list of the bundles that have
  been run: a sample task returns its name as its bundle and its run phase appends the
  bundle to the ledger; the run phase of a failing task does the same and then throws.
\<close>

definition ascii_toLowerCase :: "string \<Rightarrow> string" where
  "ascii_toLowerCase s =
     map (\<lambda>c. case map_of (zip ''ABCDEFGHIJKLMNOPQRSTUVWXYZ'' ''abcdefghijklmnopqrstuvwxyz'') c of
                 None \<Rightarrow> c
               | Some l \<Rightarrow> l) s"

definition sample_mkdirSync :: "string \<Rightarrow> 'l world \<Rightarrow> js_error + 'l world" where
  "sample_mkdirSync p w =
     (if p \<in> dirs w then Inl (Thrown ''EEXIST'') else Inr (w\<lparr>dirs := insert p (dirs w)\<rparr>))"

definition sample_ledger_world :: "jsval list world" where
  "sample_ledger_world =
     \<lparr>dirs = {''./.deployer''},
      files = [(''./.deployer'', 31337) \<mapsto> JsonText sample_record],
      ledger = []\<rparr>"

definition sample_task :: "string \<Rightarrow> string list \<Rightarrow> (jsval, jsval, jsval list) task" where
  "sample_task name ts =
     \<lparr>tags = ts,
      ensureDependencies = (\<lambda>this config w. Inr (JStr name)),
      run = (\<lambda>this bundle w. (w\<lparr>ledger := ledger w @ [bundle]\<rparr>, None))\<rparr>"

definition failing_task :: "string \<Rightarrow> string list \<Rightarrow> (jsval, jsval, jsval list) task" where
  "failing_task name ts =
     \<lparr>tags = ts,
      ensureDependencies = (\<lambda>this config w. Inr (JStr name)),
      run = (\<lambda>this bundle w. (w\<lparr>ledger := ledger w @ [bundle]\<rparr>,
                                Some (Thrown ''transaction reverted'')))\<rparr>"

definition sample_deployer :: "(jsval, jsval, jsval list) deployer" where
  "sample_deployer =
     \<lparr>options = defaultOptions, artifacts = [''UNSRegistry'', ''MintingManager''],
      accounts = [(''owner'', ''0xf39fd6e51aad88f6f4ce6ab8827279cfffb92266'')],
      deploy_minters = [''0xf39fd6e51aad88f6f4ce6ab8827279cfffb92266''],
      linkToken = [], chainId = 31337,
      tasks = [sample_task ''deployCNS'' [''cns'', ''full''],
               sample_task ''deployUNS'' [''uns'', ''full''],
               sample_task ''configureCNS'' [''uns_config_cns'', ''full''],
               sample_task ''upgradeUNS'' [''uns_upgrade'', ''upgrade'']]\<rparr>"

text \<open>
  Two more deployers on the same session: one whose first task carries a tag with a capital
  letter, one whose first task fails in its run phase.
\<close>

definition capital_deployer :: "(jsval, jsval, jsval list) deployer" where
  "capital_deployer =
     sample_deployer\<lparr>tasks := [sample_task ''deployCNS'' [''Full''],
                               sample_task ''deployUNS'' [''uns'', ''full'']]\<rparr>"

definition failing_deployer :: "(jsval, jsval, jsval list) deployer" where
  "failing_deployer =
     sample_deployer\<lparr>tasks := [failing_task ''deployCNS'' [''cns'', ''full''],
                               sample_task ''deployUNS'' [''uns'', ''full'']]\<rparr>"

definition sample_contract :: contract where
  "sample_contract =
     \<lparr>address = JStr ''0x5FC8d32690cc91D4c39d9d3abcBD16989F875707'',
      deployTransaction = Some (Inr (JObj [(''blockNumber'', JNum 31)]))\<rparr>"

section \<open>Properties of the minting-authority router\<close>

lemmas entry_defs = mintSLD_def safeMintSLD_def safeMintSLD_data_def mintSLDWithRecords_def
  safeMintSLDWithRecords_def safeMintSLDWithRecords_data_def claim_def claimTo_def
  claimToWithRecords_def

lemmas priv_defs = priv_mintSLD_def priv_safeMintSLD_def priv_mintSLDWithRecords_def
  priv_safeMintSLDWithRecords_def

lemmas guard_defs = onlyMinter_def validTld_def

lemmas sig_defs = SIG_MINT_def SIG_SAFE_MINT_def SIG_SAFE_MINT_DATA_def
  SIG_MINT_WITH_RECORDS_def SIG_SAFE_MINT_WITH_RECORDS_def SIG_SAFE_MINT_WITH_RECORDS_DATA_def

lemma childId_eq:
  "childId k t l = (if l = [] then Inl LABEL_EMPTY else Inr (canonicalHash k t l))"
  by (simp add: childId_def canonicalHash_def bytes_of_def)

lemma tld_distinct:
  "CRYPTO_TLD \<noteq> WALLET_TLD" "CRYPTO_TLD \<noteq> COIN_TLD" "WALLET_TLD \<noteq> COIN_TLD"
  "WALLET_TLD \<noteq> CRYPTO_TLD" "COIN_TLD \<noteq> CRYPTO_TLD" "COIN_TLD \<noteq> WALLET_TLD"
  by (simp_all add: CRYPTO_TLD_def WALLET_TLD_def COIN_TLD_def)

lemma canonicalHash_sample: "canonicalHash sample_hash t l = 64"
  by (simp add: canonicalHash_def sample_hash_def encodePacked_uint256_def)

lemma sample_registry: "(64 :: uint256) \<notin> registry sample_state"
  by (simp add: sample_state_def WALLET_TLD_def COIN_TLD_def)

lemma sample_tlds:
  "tlds sample_state CRYPTO_TLD = ''crypto''"
  "tlds sample_state WALLET_TLD = ''wallet''"
  "tlds sample_state COIN_TLD = ''coin''"
  by (simp_all add: sample_state_def tld_distinct)

lemma sample_minter: "isMinter sample_state 0x4D" "\<not> isMinter sample_state 0x99"
  by (simp_all add: sample_state_def isMinter_def)

lemma initialize_Inr:
  assumes "\<not> initialized s"
  shows "initialize s sender r m c =
           Inr (s\<lparr>initialized := True, owner := sender,
                  minters := insert (this_address s) (minters s),
                  UnsRegistry := r, CryptoMinter := m, CryptoResolver := c,
                  tlds := (tlds s)(CRYPTO_TLD := ''crypto'', WALLET_TLD := ''wallet'',
                                   COIN_TLD := ''coin''),
                  registry := registry s \<union> {WALLET_TLD, COIN_TLD},
                  calls := calls s
                    @ (if WALLET_TLD \<in> registry s then []
                       else [UnsRegistry_mint BURN_ADDRESS WALLET_TLD ''wallet''])
                    @ (if COIN_TLD \<in> registry s then []
                       else [UnsRegistry_mint BURN_ADDRESS COIN_TLD ''coin''])\<rparr>)"
  using assms
  by (auto simp: initialize_def initializer_def Ownable_init_unchained_def
      MinterRole_init_unchained_def addMinter_def UnsRegistry_exists_def UnsRegistry_call_def
      tld_distinct Let_def insert_absorb insert_commute)

lemma initialize_Inl:
  "initialized s \<Longrightarrow> initialize s sender r m c = Inl ALREADY_INITIALIZED"
  by (simp add: initialize_def initializer_def)

text \<open>
  C3. A selector that is none of the six mint-family selectors makes \<^verbatim>\<open>_verifyRelayCall\<close>
  fail with \<^verbatim>\<open>UNSUPPORTED_RELAY_CALL\<close>, whatever the call data. The check takes the
  selector and the call data only: it reads neither the signer nor the storage, so the
  outcome is the same for every signer, a minter or not.
\<close>

theorem verifyRelayCall_unsupported:
  assumes "funcSig \<notin> {SIG_MINT, SIG_SAFE_MINT, SIG_SAFE_MINT_DATA, SIG_MINT_WITH_RECORDS,
                       SIG_SAFE_MINT_WITH_RECORDS, SIG_SAFE_MINT_WITH_RECORDS_DATA}"
  shows "verifyRelayCall funcSig data = Inl UNSUPPORTED_RELAY_CALL"
  using assms by (simp add: verifyRelayCall_def)

theorem verifyRelayCall_unsupported_witness:
  "(0xa9059cbb :: bytes4) \<notin> {SIG_MINT, SIG_SAFE_MINT, SIG_SAFE_MINT_DATA,
       SIG_MINT_WITH_RECORDS, SIG_SAFE_MINT_WITH_RECORDS, SIG_SAFE_MINT_WITH_RECORDS_DATA}
   \<and> verifyRelayCall 0xa9059cbb [0xa9, 0x05, 0x9c, 0xbb] = Inl UNSUPPORTED_RELAY_CALL"
proof -
  have h: "(0xa9059cbb :: bytes4) \<notin> {SIG_MINT, SIG_SAFE_MINT, SIG_SAFE_MINT_DATA,
             SIG_MINT_WITH_RECORDS, SIG_SAFE_MINT_WITH_RECORDS, SIG_SAFE_MINT_WITH_RECORDS_DATA}"
    by (simp add: sig_defs)
  from h verifyRelayCall_unsupported [OF h] show ?thesis by simp
qed

lemma encodePacked_last: "last (encodePacked_uint256 w) = ucast w"
proof -
  have "last (encodePacked_uint256 w) = ucast (drop_bit (8 * (31 - last [0..<32])) w)"
    unfolding encodePacked_uint256_def by (subst last_map) simp_all
  also have "last [0..<32] = (31 :: nat)"
    by (subst last_upt) simp_all
  finally show ?thesis by simp
qed

lemma encodePacked_length: "length (encodePacked_uint256 w) = 32"
  by (simp add: encodePacked_uint256_def)

lemma encodePacked_not_Nil: "encodePacked_uint256 w \<noteq> []"
  using encodePacked_length [of w] by auto

lemma canonicalHash_tail:
  "canonicalHash tail_hash t l = 64 + ucast (ucast (tail_hash (bytes_of l)) :: 8 word)"
  by (simp add: canonicalHash_def tail_hash_def [of "_ @ _"] encodePacked_not_Nil
      encodePacked_length encodePacked_last)

lemma tail_hash_labels:
  "canonicalHash tail_hash t ''abc'' = 166"
  "canonicalHash tail_hash t ''udtestdev-abc'' = 176"
  by (simp_all add: canonicalHash_tail tail_hash_def bytes_of_def)

lemma sample_registry_176: "(176 :: uint256) \<notin> registry sample_state"
  by (simp add: sample_state_def WALLET_TLD_def COIN_TLD_def)

text \<open>
  C1, as amended. Routing. Whenever a call of the mint family completes (so the TLD is
  registered): if the TLD is the reserved legacy identifier \<open>CRYPTO_TLD\<close>, the first call
  made is a mint on the legacy minter that carries the label, no call goes to the primary
  registry and the registry is unchanged (a call to the legacy minter has fields for the
  receiver, the label, a resolver and data only, none for a TLD or a token id), and any
  later call is the call to the legacy resolver that attaches the records, keyed by the
  canonical hash; otherwise exactly one call is made, a mint on the primary registry, and
  its token id is \<open>canonicalHash tld label\<close>. Here \<open>label\<close> is the supplied label for the
  six functions of the minters, and the supplied label after the prefix \<^verbatim>\<open>udtestdev-\<close> for
  \<^verbatim>\<open>claim\<close>, \<^verbatim>\<open>claimTo\<close> and \<^verbatim>\<open>claimToWithRecords\<close>. And the call does complete when the
  TLD is registered, the caller holds the minter role or the function is one of \<^verbatim>\<open>claim*\<close>,
  that label is not empty and the token does not exist in the registry.
\<close>

theorem mint_routing:
  "(let label = (if is_claim req then ''udtestdev-'' @ request_label req
                 else request_label req)
    in (\<forall>s'. perform keccak s sender req = Inr s' \<longrightarrow>
          (if request_tld req = CRYPTO_TLD
           then (\<exists>c rest. calls s' = calls s @ c # rest
                   \<and> legacy_mint_label c = Some label
                   \<and> (\<forall>x \<in> set (c # rest). registry_token x = None)
                   \<and> (\<forall>x \<in> set rest.
                         resolver_token x = Some (canonicalHash keccak (request_tld req) label))
                   \<and> registry s' = registry s)
           else (\<exists>c. calls s' = calls s @ [c]
                   \<and> registry_token c = Some (canonicalHash keccak (request_tld req) label)
                   \<and> registry s'
                       = insert (canonicalHash keccak (request_tld req) label) (registry s))))
       \<and> (tlds s (request_tld req) \<noteq> [] \<and> (isMinter s sender \<or> is_claim req)
            \<and> label \<noteq> []
            \<and> canonicalHash keccak (request_tld req) label \<notin> registry s
            \<longrightarrow> (\<exists>s'. perform keccak s sender req = Inr s')))"
  unfolding Let_def
  by (cases req)
     (auto simp: entry_defs priv_defs guard_defs freeSLDLabel_def legacy_call_def
        UnsRegistry_call_def UnsRegistry_exists_def childId_eq Let_def bytes_of_def
        split: if_splits sum.splits)

theorem mint_routing_witness:
  "(\<exists>s'. perform sample_hash sample_state 0x4D (MintSLD 0x05 COIN_TLD ''abc'') = Inr s'
       \<and> (\<exists>c. calls s' = calls sample_state @ [c]
              \<and> registry_token c = Some (canonicalHash sample_hash COIN_TLD ''abc'')))
   \<and> (\<exists>s'. perform tail_hash sample_state 0x99 (Claim COIN_TLD ''abc'') = Inr s'
       \<and> (\<exists>c. calls s' = calls sample_state @ [c]
              \<and> registry_token c = Some (canonicalHash tail_hash COIN_TLD ''udtestdev-abc'')
              \<and> registry_token c = Some 176))"
proof -
  note r = mint_routing [where keccak = sample_hash and s = sample_state and sender = "0x4D"
             and req = "MintSLD 0x05 COIN_TLD ''abc''", unfolded Let_def]
  have pre: "tlds sample_state (request_tld (MintSLD 0x05 COIN_TLD ''abc'')) \<noteq> []
     \<and> (isMinter sample_state 0x4D \<or> is_claim (MintSLD 0x05 COIN_TLD ''abc''))
     \<and> (if is_claim (MintSLD 0x05 COIN_TLD ''abc'')
         then ''udtestdev-'' @ request_label (MintSLD 0x05 COIN_TLD ''abc'')
         else request_label (MintSLD 0x05 COIN_TLD ''abc'')) \<noteq> []
     \<and> canonicalHash sample_hash (request_tld (MintSLD 0x05 COIN_TLD ''abc''))
          (if is_claim (MintSLD 0x05 COIN_TLD ''abc'')
           then ''udtestdev-'' @ request_label (MintSLD 0x05 COIN_TLD ''abc'')
           else request_label (MintSLD 0x05 COIN_TLD ''abc'')) \<notin> registry sample_state"
    by (simp add: sample_tlds sample_minter canonicalHash_sample sample_registry)
  from r [THEN conjunct2, rule_format, OF pre] obtain s1 where
    run: "perform sample_hash sample_state 0x4D (MintSLD 0x05 COIN_TLD ''abc'') = Inr s1"
    by (elim exE)
  from r [THEN conjunct1, rule_format, OF run]
  have "\<exists>c. calls s1 = calls sample_state @ [c]
           \<and> registry_token c = Some (canonicalHash sample_hash COIN_TLD ''abc'')"
    by (auto simp: tld_distinct)
  with run have a: "\<exists>s'. perform sample_hash sample_state 0x4D (MintSLD 0x05 COIN_TLD ''abc'')
                            = Inr s'
       \<and> (\<exists>c. calls s' = calls sample_state @ [c]
              \<and> registry_token c = Some (canonicalHash sample_hash COIN_TLD ''abc''))"
    by blast
  note q = mint_routing [where keccak = tail_hash and s = sample_state and sender = "0x99"
             and req = "Claim COIN_TLD ''abc''", unfolded Let_def]
  have pre2: "tlds sample_state (request_tld (Claim COIN_TLD ''abc'')) \<noteq> []
     \<and> (isMinter sample_state 0x99 \<or> is_claim (Claim COIN_TLD ''abc''))
     \<and> (if is_claim (Claim COIN_TLD ''abc'')
         then ''udtestdev-'' @ request_label (Claim COIN_TLD ''abc'')
         else request_label (Claim COIN_TLD ''abc'')) \<noteq> []
     \<and> canonicalHash tail_hash (request_tld (Claim COIN_TLD ''abc''))
          (if is_claim (Claim COIN_TLD ''abc'')
           then ''udtestdev-'' @ request_label (Claim COIN_TLD ''abc'')
           else request_label (Claim COIN_TLD ''abc'')) \<notin> registry sample_state"
    by (simp add: sample_tlds tail_hash_labels sample_registry_176)
  from q [THEN conjunct2, rule_format, OF pre2] obtain s2 where
    run2: "perform tail_hash sample_state 0x99 (Claim COIN_TLD ''abc'') = Inr s2"
    by (elim exE)
  from q [THEN conjunct1, rule_format, OF run2]
  have "\<exists>c. calls s2 = calls sample_state @ [c]
           \<and> registry_token c = Some (canonicalHash tail_hash COIN_TLD ''udtestdev-abc'')
           \<and> registry_token c = Some 176"
    by (auto simp: tld_distinct tail_hash_labels)
  with run2 have b: "\<exists>s'. perform tail_hash sample_state 0x99 (Claim COIN_TLD ''abc'') = Inr s'
       \<and> (\<exists>c. calls s' = calls sample_state @ [c]
              \<and> registry_token c = Some (canonicalHash tail_hash COIN_TLD ''udtestdev-abc'')
              \<and> registry_token c = Some 176)"
    by blast
  from a b show ?thesis by (rule conjI)
qed

text \<open>
  C1 as stated, with the supplied label in the hash for the \<^verbatim>\<open>claim*\<close> functions too, fails
  at \<^verbatim>\<open>claim(COIN, 'abc')\<close>: with \<open>tail_hash\<close> for \<^verbatim>\<open>keccak256\<close> the token minted on the
  primary registry is 176, the canonical hash of \<^verbatim>\<open>udtestdev-abc\<close>, while the canonical hash
  of the TLD and the supplied label \<^verbatim>\<open>abc\<close> is 166. On the legacy path the minter receives
  \<^verbatim>\<open>udtestdev-abc\<close>, not the supplied label.
\<close>

theorem mint_routing_counterexample:
  "claim tail_hash sample_state 0x99 COIN_TLD ''abc''
     = Inr (sample_state\<lparr>registry := insert 176 (registry sample_state),
                          calls := calls sample_state
                            @ [UnsRegistry_mint 0x99 176 ''udtestdev-abc.coin'']\<rparr>)
   \<and> canonicalHash tail_hash COIN_TLD ''abc'' = 166
   \<and> claim tail_hash sample_state 0x99 CRYPTO_TLD ''abc''
       = Inr (sample_state\<lparr>calls := calls sample_state
                              @ [CryptoMinter_mintSLD 0x99 ''udtestdev-abc'']\<rparr>)"
  by (simp add: claim_def validTld_def priv_mintSLD_def freeSLDLabel_def childId_eq uri_def
      bytes_of_def tld_distinct sample_tlds tail_hash_labels sample_registry_176
      UnsRegistry_call_def UnsRegistry_exists_def legacy_call_def)

text \<open>
  C2, as amended. With a registered TLD, an empty label and a caller that holds the minter
  role, \<^verbatim>\<open>mintSLD\<close> and both \<^verbatim>\<open>safeMintSLD\<close> fail with \<^verbatim>\<open>LABEL_EMPTY\<close> when the TLD is not
  the legacy one, and \<^verbatim>\<open>mintSLDWithRecords\<close> and both \<^verbatim>\<open>safeMintSLDWithRecords\<close> fail with
  it on both routing paths. The three \<^verbatim>\<open>claim*\<close> functions never fail with \<^verbatim>\<open>LABEL_EMPTY\<close>,
  whatever the label: the label they pass on starts with the reserved prefix.
\<close>

theorem empty_label_rejected:
  "(request_label req = [] \<and> tlds s (request_tld req) \<noteq> [] \<and> isMinter s sender
      \<and> \<not> is_claim req \<and> (with_records req \<or> request_tld req \<noteq> CRYPTO_TLD)
      \<longrightarrow> perform keccak s sender req = Inl LABEL_EMPTY)
   \<and> (is_claim req \<longrightarrow> perform keccak s sender req \<noteq> Inl LABEL_EMPTY)"
  by (cases req)
     (auto simp: entry_defs priv_defs guard_defs bytes_of_def childId_eq freeSLDLabel_def
        UnsRegistry_call_def Let_def)

theorem empty_label_rejected_witness:
  "perform sample_hash sample_state 0x4D (MintSLD 0x05 WALLET_TLD []) = Inl LABEL_EMPTY
   \<and> perform sample_hash sample_state 0x4D (MintSLDWithRecords 0x05 CRYPTO_TLD [] [''k''] [''v''])
       = Inl LABEL_EMPTY
   \<and> perform sample_hash sample_state 0x99 (ClaimTo 0x05 WALLET_TLD []) \<noteq> Inl LABEL_EMPTY"
  using empty_label_rejected [where req = "MintSLD 0x05 WALLET_TLD []" and s = sample_state
          and sender = "0x4D" and keccak = sample_hash]
        empty_label_rejected [where req = "MintSLDWithRecords 0x05 CRYPTO_TLD [] [''k''] [''v'']"
          and s = sample_state and sender = "0x4D" and keccak = sample_hash]
        empty_label_rejected [where req = "ClaimTo 0x05 WALLET_TLD []" and s = sample_state
          and sender = "0x99" and keccak = sample_hash]
  by (simp add: sample_tlds sample_minter tld_distinct)

text \<open>
  C2 as stated fails. On the sample contract, \<^verbatim>\<open>claim\<close> with an empty label mints under the
  bare prefix on either path; \<^verbatim>\<open>mintSLD\<close> by a minter with the legacy TLD hands the empty
  label to the legacy minter without a check; and \<^verbatim>\<open>mintSLD\<close> by an account that is no
  minter fails with the reason of the role guard.
\<close>

theorem empty_label_counterexample:
  "claim sample_hash sample_state 0x99 WALLET_TLD []
     = Inr (sample_state\<lparr>registry := insert 64 (registry sample_state),
              calls := calls sample_state @ [UnsRegistry_mint 0x99 64 ''udtestdev-.wallet'']\<rparr>)
   \<and> claim sample_hash sample_state 0x99 CRYPTO_TLD []
     = Inr (sample_state\<lparr>calls := calls sample_state
                                     @ [CryptoMinter_mintSLD 0x99 ''udtestdev-'']\<rparr>)
   \<and> mintSLD sample_hash sample_state 0x4D 0x05 CRYPTO_TLD []
     = Inr (sample_state\<lparr>calls := calls sample_state @ [CryptoMinter_mintSLD 0x05 []]\<rparr>)
   \<and> mintSLD sample_hash sample_state 0x99 0x05 WALLET_TLD [] = Inl CALLER_IS_NOT_MINTER"
  by (simp add: claim_def mintSLD_def priv_mintSLD_def guard_defs sample_minter sample_tlds
      bytes_of_def tld_distinct childId_eq UnsRegistry_call_def UnsRegistry_exists_def
      sample_registry uri_def canonicalHash_sample freeSLDLabel_def legacy_call_def)

text \<open>
  C4. For every caller and every registered TLD, \<^verbatim>\<open>claim\<close>, \<^verbatim>\<open>claimTo\<close> and
  \<^verbatim>\<open>claimToWithRecords\<close> either complete or fail because the token exists already (on the
  primary path only); no role is asked of the caller. When they complete, the first call
  made is the mint, every later call is a call to the resolver, and the mint is under the
  label \<open>''udtestdev-'' @ label\<close>: on the legacy path that is the label of the call and
  the raw label is not; on the primary path the token id is the canonical hash of the
  rewritten label and the URI is the rewritten label followed by the TLD, not the raw one.
\<close>

theorem claim_mints_prefixed:
  assumes "is_claim req" and "tlds s (request_tld req) \<noteq> []"
  shows "(perform keccak s sender req = Inl TOKEN_ALREADY_MINTED
            \<and> request_tld req \<noteq> CRYPTO_TLD
            \<and> canonicalHash keccak (request_tld req) (''udtestdev-'' @ request_label req)
                \<in> registry s)
         \<or> (\<exists>s' c rest. perform keccak s sender req = Inr s'
               \<and> calls s' = calls s @ c # rest
               \<and> (\<forall>x \<in> set rest. legacy_mint_label x = None \<and> registry_token x = None)
               \<and> (if request_tld req = CRYPTO_TLD
                   then legacy_mint_label c = Some (''udtestdev-'' @ request_label req)
                        \<and> legacy_mint_label c \<noteq> Some (request_label req)
                   else registry_token c
                          = Some (canonicalHash keccak (request_tld req)
                                    (''udtestdev-'' @ request_label req))
                        \<and> registry_uri c
                          = Some (''udtestdev-'' @ request_label req @ ''.''
                                    @ tlds s (request_tld req))
                        \<and> registry_uri c
                          \<noteq> Some (request_label req @ ''.'' @ tlds s (request_tld req))))"
  using assms
  by (cases req)
     (auto simp: entry_defs priv_defs guard_defs bytes_of_def childId_eq freeSLDLabel_def
        UnsRegistry_call_def UnsRegistry_exists_def legacy_call_def uri_def Let_def)


theorem claim_mints_prefixed_witness:
  "is_claim (Claim COIN_TLD ''abc'')
   \<and> tlds sample_state (request_tld (Claim COIN_TLD ''abc'')) \<noteq> []
   \<and> (\<exists>s' c rest. perform sample_hash sample_state 0x99 (Claim COIN_TLD ''abc'') = Inr s'
          \<and> calls s' = calls sample_state @ c # rest
          \<and> registry_uri c = Some ''udtestdev-abc.coin'')"
proof -
  have h1: "is_claim (Claim COIN_TLD ''abc'')" by simp
  have h2: "tlds sample_state (request_tld (Claim COIN_TLD ''abc'')) \<noteq> []"
    by (simp add: sample_tlds)
  from claim_mints_prefixed [OF h1 h2, of sample_hash "0x99"] h1 h2 show ?thesis
    by (auto simp: canonicalHash_sample sample_registry tld_distinct sample_tlds)
qed

text \<open>
  C5. On a contract that is not initialized, \<^verbatim>\<open>initialize\<close> completes. It stores the labels
  \<open>crypto\<close>, \<open>wallet\<close> and \<open>coin\<close> under their three hashes and leaves every other entry
  of the TLD mapping as it was, so on the empty mapping of a new contract exactly three
  TLDs are registered. It mints \<open>wallet\<close> to the burn address only if that id does not exist
  in the registry, then \<open>coin\<close> likewise, and makes no other call. A second initialization
  of the same contract fails; an initialization of another contract beside the registry
  that resulted makes no call and leaves the registry unchanged.
\<close>

theorem initialize_registers_and_premints:
  assumes "\<not> initialized s"
  shows "\<exists>s'. initialize s sender r m c = Inr s'
     \<and> (\<forall>t. tlds s' t = (if t = COIN_TLD then ''coin''
                         else if t = WALLET_TLD then ''wallet''
                         else if t = CRYPTO_TLD then ''crypto'' else tlds s t))
     \<and> (tlds s = (\<lambda>_. []) \<longrightarrow> {t. tlds s' t \<noteq> []} = {CRYPTO_TLD, WALLET_TLD, COIN_TLD})
     \<and> calls s' = calls s
          @ (if WALLET_TLD \<in> registry s then []
             else [UnsRegistry_mint BURN_ADDRESS WALLET_TLD ''wallet''])
          @ (if COIN_TLD \<in> registry s then []
             else [UnsRegistry_mint BURN_ADDRESS COIN_TLD ''coin''])
     \<and> registry s' = registry s \<union> {WALLET_TLD, COIN_TLD}
     \<and> (\<forall>sender2 r2 m2 c2. initialize s' sender2 r2 m2 c2 = Inl ALREADY_INITIALIZED)
     \<and> (\<forall>s2 sender2 r2 m2 c2. \<not> initialized s2 \<and> registry s2 = registry s'
           \<longrightarrow> (\<exists>s2'. initialize s2 sender2 r2 m2 c2 = Inr s2'
                    \<and> calls s2' = calls s2 \<and> registry s2' = registry s2))"
proof -
  let ?s' = "s\<lparr>initialized := True, owner := sender,
                  minters := insert (this_address s) (minters s),
                  UnsRegistry := r, CryptoMinter := m, CryptoResolver := c,
                  tlds := (tlds s)(CRYPTO_TLD := ''crypto'', WALLET_TLD := ''wallet'',
                                   COIN_TLD := ''coin''),
                  registry := registry s \<union> {WALLET_TLD, COIN_TLD},
                  calls := calls s
                    @ (if WALLET_TLD \<in> registry s then []
                       else [UnsRegistry_mint BURN_ADDRESS WALLET_TLD ''wallet''])
                    @ (if COIN_TLD \<in> registry s then []
                       else [UnsRegistry_mint BURN_ADDRESS COIN_TLD ''coin''])\<rparr>"
  have run: "initialize s sender r m c = Inr ?s'"
    by (rule initialize_Inr [OF assms])
  have t: "\<forall>t. tlds ?s' t = (if t = COIN_TLD then ''coin''
                         else if t = WALLET_TLD then ''wallet''
                         else if t = CRYPTO_TLD then ''crypto'' else tlds s t)"
    by simp
  have three: "tlds s = (\<lambda>_. []) \<longrightarrow> {t. tlds ?s' t \<noteq> []} = {CRYPTO_TLD, WALLET_TLD, COIN_TLD}"
    by auto
  have again: "\<forall>sender2 r2 m2 c2. initialize ?s' sender2 r2 m2 c2 = Inl ALREADY_INITIALIZED"
    by (simp add: initialize_Inl)
  have second: "\<forall>s2 sender2 r2 m2 c2. \<not> initialized s2 \<and> registry s2 = registry ?s'
           \<longrightarrow> (\<exists>s2'. initialize s2 sender2 r2 m2 c2 = Inr s2'
                    \<and> calls s2' = calls s2 \<and> registry s2' = registry s2)"
    by (auto simp: initialize_Inr)
  show ?thesis
    apply (rule exI [of _ ?s'])
    apply (intro conjI)
          apply (rule run)
         apply (rule t)
        apply (rule three)
       apply simp
      apply simp
     apply (rule again)
    apply (rule second)
    done
qed

theorem initialize_registers_and_premints_witness:
  "\<not> initialized (deployed 0x4D {})
   \<and> initialize (deployed 0x4D {}) 0x01 0x10 0x11 0x12 = Inr sample_state
   \<and> {t. tlds sample_state t \<noteq> []} = {CRYPTO_TLD, WALLET_TLD, COIN_TLD}
   \<and> initialize sample_state 0x01 0x10 0x11 0x12 = Inl ALREADY_INITIALIZED"
proof -
  have h: "\<not> initialized (deployed 0x4D {})" by (simp add: deployed_def)
  have run: "initialize (deployed 0x4D {}) 0x01 0x10 0x11 0x12 = Inr sample_state"
    by (simp add: initialize_Inr [OF h]) (simp add: deployed_def sample_state_def)
  have e: "tlds (deployed 0x4D {}) = (\<lambda>_. [])" by (simp add: deployed_def)
  from initialize_registers_and_premints [OF h, of "0x01" "0x10" "0x11" "0x12"] h e
  show ?thesis unfolding run by auto
qed

text \<open>
  C6, as amended. For a TLD with no stored label, every function guarded by \<^verbatim>\<open>validTld\<close>
  fails with \<^verbatim>\<open>TLD_NOT_VALID\<close>, for every recipient and label: the three \<^verbatim>\<open>claim*\<close>
  functions for every caller, the six functions of the minters for every caller that holds
  the minter role.
\<close>

theorem unregistered_tld_rejected:
  assumes "tlds s (request_tld req) = []"
      and "isMinter s sender \<or> is_claim req"
  shows "perform keccak s sender req = Inl TLD_NOT_VALID"
  using assms by (cases req) (auto simp: entry_defs guard_defs bytes_of_def)

theorem unregistered_tld_rejected_witness:
  "tlds sample_state (request_tld (MintSLD 0x05 0x2A ''abc'')) = []
   \<and> (isMinter sample_state 0x4D \<or> is_claim (MintSLD 0x05 0x2A ''abc''))
   \<and> perform sample_hash sample_state 0x4D (MintSLD 0x05 0x2A ''abc'') = Inl TLD_NOT_VALID"
proof -
  have h1: "tlds sample_state (request_tld (MintSLD 0x05 0x2A ''abc'')) = []"
    by (simp add: sample_state_def CRYPTO_TLD_def WALLET_TLD_def COIN_TLD_def)
  have h2: "isMinter sample_state 0x4D \<or> is_claim (MintSLD 0x05 0x2A ''abc'')"
    by (simp add: sample_minter)
  from h1 h2 unregistered_tld_rejected [OF h1 h2, of sample_hash] show ?thesis by blast
qed

text \<open>
  C6 as stated fails: \<^verbatim>\<open>onlyMinter\<close> runs before \<^verbatim>\<open>validTld\<close>, so \<^verbatim>\<open>mintSLD\<close> with an
  unregistered TLD by an account that is no minter fails with the reason of the role guard.
\<close>

theorem unregistered_tld_counterexample:
  "tlds sample_state 0x2A = []
   \<and> mintSLD sample_hash sample_state 0x99 0x05 0x2A ''abc'' = Inl CALLER_IS_NOT_MINTER
   \<and> mintSLD sample_hash sample_state 0x99 0x05 0x2A ''abc'' \<noteq> Inl TLD_NOT_VALID"
  by (simp add: mintSLD_def onlyMinter_def sample_minter)
     (simp add: sample_state_def CRYPTO_TLD_def WALLET_TLD_def COIN_TLD_def)

text \<open>
  C10. After \<^verbatim>\<open>initialize\<close> completes, the address of the contract itself holds the minter
  role: \<^verbatim>\<open>isMinter(address(this))\<close> is true, the \<^verbatim>\<open>onlyMinter\<close> guard lets a call by the
  contract itself through, and no function of the mint family called by the contract itself
  fails with the reason of that guard.
\<close>

theorem initialize_grants_self_minter:
  assumes "initialize s sender r m c = Inr s'"
  shows "isMinter s' (this_address s')
         \<and> this_address s' = this_address s
         \<and> (\<forall>body. onlyMinter s' (this_address s') body = body)
         \<and> (\<forall>keccak req. perform keccak s' (this_address s') req \<noteq> Inl CALLER_IS_NOT_MINTER)"
proof -
  have ni: "\<not> initialized s"
    using assms by (auto simp: initialize_Inl)
  have s': "s' = s\<lparr>initialized := True, owner := sender,
                  minters := insert (this_address s) (minters s),
                  UnsRegistry := r, CryptoMinter := m, CryptoResolver := c,
                  tlds := (tlds s)(CRYPTO_TLD := ''crypto'', WALLET_TLD := ''wallet'',
                                   COIN_TLD := ''coin''),
                  registry := registry s \<union> {WALLET_TLD, COIN_TLD},
                  calls := calls s
                    @ (if WALLET_TLD \<in> registry s then []
                       else [UnsRegistry_mint BURN_ADDRESS WALLET_TLD ''wallet''])
                    @ (if COIN_TLD \<in> registry s then []
                       else [UnsRegistry_mint BURN_ADDRESS COIN_TLD ''coin''])\<rparr>"
    using assms initialize_Inr [OF ni, of sender r m c] by simp
  have m: "isMinter s' (this_address s')" by (simp add: s' isMinter_def)
  have a: "this_address s' = this_address s" by (simp add: s')
  have g: "\<forall>body. onlyMinter s' (this_address s') body = body"
    using m by (simp add: onlyMinter_def)
  have p: "perform keccak s' (this_address s') req \<noteq> Inl CALLER_IS_NOT_MINTER" for keccak req
    using m
    by (cases req)
       (auto simp: entry_defs priv_defs guard_defs childId_eq UnsRegistry_call_def Let_def
          split: if_splits)
  from m a g p show ?thesis by blast
qed

theorem initialize_grants_self_minter_witness:
  "initialize (deployed 0x4D {}) 0x01 0x10 0x11 0x12 = Inr sample_state
   \<and> isMinter sample_state (this_address sample_state)
   \<and> this_address sample_state = 0x4D"
proof -
  have h: "\<not> initialized (deployed 0x4D {})" by (simp add: deployed_def)
  have run: "initialize (deployed 0x4D {}) 0x01 0x10 0x11 0x12 = Inr sample_state"
    by (simp add: initialize_Inr [OF h]) (simp add: deployed_def sample_state_def)
  from initialize_grants_self_minter [OF run]
  have "isMinter sample_state (this_address sample_state)" by blast
  moreover have "this_address sample_state = 0x4D" by (simp add: sample_state_def)
  ultimately show ?thesis using run by blast
qed

section \<open>Properties of the deployment session\<close>

subsection \<open>Closed evaluations on the sample session\<close>

lemma decimal_31337: "decimal 31337 = ''31337''"
  by (simp add: decimal.simps digit_char_def)

lemma hex_26: "sample_toHexString (JNum 26) = Inr ''0x1a''"
  by (simp add: sample_toHexString_def hex_digits.simps hex_digit_def Let_def)

lemma sample_getDeployConfig: "getDeployConfig sample_session sample_world = Inr sample_record"
  by (simp add: getDeployConfig_def configPath_def sample_session_def sample_world_def
      defaultOptions_def)

lemma sample_getNetworkConfig:
  "getNetworkConfig sample_toHexString sample_session sample_world = Inr sample_view"
  by (simp add: getNetworkConfig_def sample_getDeployConfig)
     (simp add: sample_record_def sample_session_def lookup_def Object_entries_def
        contractConfig_def emptyConfig_def hex_26 decimal_31337 sample_view_def)

lemma is_json_sample_record: "is_json sample_record"
  by (simp add: sample_record_def)

lemma ascii_toLowerCase_examples:
  "ascii_toLowerCase ''FULL'' = ''full''"
  "ascii_toLowerCase ''Full'' = ''full''"
  "ascii_toLowerCase ''full'' = ''full''"
  by (simp_all add: ascii_toLowerCase_def)

lemma ledger_getNetworkConfig:
  assumes "options this = defaultOptions" and "chainId this = 31337"
  shows "getNetworkConfig sample_toHexString this (sample_ledger_world\<lparr>ledger := l\<rparr>)
         = Inr sample_view"
proof -
  have "getDeployConfig this (sample_ledger_world\<lparr>ledger := l\<rparr>) = Inr sample_record"
    by (simp add: getDeployConfig_def configPath_def assms sample_ledger_world_def
        defaultOptions_def)
  then show ?thesis
    by (simp add: getNetworkConfig_def)
       (simp add: sample_record_def assms lookup_def Object_entries_def
          contractConfig_def emptyConfig_def hex_26 decimal_31337 sample_view_def)
qed

lemma sample_deployer_fields:
  "options sample_deployer = defaultOptions" "chainId sample_deployer = 31337"
  "options capital_deployer = defaultOptions" "chainId capital_deployer = 31337"
  "options failing_deployer = defaultOptions" "chainId failing_deployer = 31337"
  by (simp_all add: sample_deployer_def capital_deployer_def failing_deployer_def)

lemma ledger_sample: "ledger sample_ledger_world = []"
  by (simp add: sample_ledger_world_def)

lemma dirs_sample: "dirs sample_ledger_world = {''./.deployer''}"
  by (simp add: sample_ledger_world_def)

lemma sample_tasks:
  "tasks sample_deployer = [sample_task ''deployCNS'' [''cns'', ''full''],
                            sample_task ''deployUNS'' [''uns'', ''full''],
                            sample_task ''configureCNS'' [''uns_config_cns'', ''full''],
                            sample_task ''upgradeUNS'' [''uns_upgrade'', ''upgrade'']]"
  "tasks capital_deployer = [sample_task ''deployCNS'' [''Full''],
                             sample_task ''deployUNS'' [''uns'', ''full'']]"
  "tasks failing_deployer = [failing_task ''deployCNS'' [''cns'', ''full''],
                             sample_task ''deployUNS'' [''uns'', ''full'']]"
  by (simp_all add: sample_deployer_def capital_deployer_def failing_deployer_def)

lemma sample_task_fields:
  "tags (sample_task name ts) = ts"
  "ensureDependencies (sample_task name ts) this config w = Inr (JStr name)"
  "run (sample_task name ts) this deps w = (w\<lparr>ledger := ledger w @ [deps]\<rparr>, None)"
  "tags (failing_task name ts) = ts"
  "ensureDependencies (failing_task name ts) this config w = Inr (JStr name)"
  "run (failing_task name ts) this deps w
     = (w\<lparr>ledger := ledger w @ [deps]\<rparr>, Some (Thrown ''transaction reverted''))"
  by (simp_all add: sample_task_def failing_task_def)

lemma sample_new_Deployer:
  "new_Deployer sample_mkdirSync \<lparr>basePath_arg = None, proxy_arg = None\<rparr>
       [''UNSRegistry'', ''MintingManager'']
       [(''owner'', ''0xf39fd6e51aad88f6f4ce6ab8827279cfffb92266'')]
       [''0xf39fd6e51aad88f6f4ce6ab8827279cfffb92266''] [] 31337
       (sample_task ''deployCNS'' [''cns'', ''full''])
       (sample_task ''deployUNS'' [''uns'', ''full''])
       (sample_task ''configureCNS'' [''uns_config_cns'', ''full''])
       (sample_task ''upgradeUNS'' [''uns_upgrade'', ''upgrade''])
       sample_ledger_world
   = Inr (sample_deployer, sample_ledger_world)"
  by (simp add: new_Deployer_def Let_def dirs_sample sample_deployer_def defaultOptions_def)

subsection \<open>The rendered view\<close>

lemma js_get_Inr: "js_get v k = Inr x \<Longrightarrow> x = field v k"
  by (cases v) (auto simp: field_def)

lemma js_get_truthy: "truthy v \<Longrightarrow> js_get v k = Inr (field v k)"
  by (cases v) (auto simp: field_def)

lemma contractConfig_Inr:
  assumes "contractConfig toHexString val = Inr c"
  shows "\<exists>d. c = JObj [(''address'', field val ''address''),
                      (''legacyAddresses'', JArr []),
                      (''deploymentBlock'', JStr d),
                      (''implementation'', field val ''implementation'')]
           \<and> (if truthy (field val ''transaction'')
                then toHexString (field (field val ''transaction'') ''blockNumber'') = Inr d
                else d = ''0x0'')"
proof -
  from assms obtain a i t where a: "js_get val ''address'' = Inr a"
    and i: "js_get val ''implementation'' = Inr i"
    and t: "js_get val ''transaction'' = Inr t"
    by (auto simp: contractConfig_def split: sum.splits)
  note eqs = js_get_Inr [OF a] js_get_Inr [OF i] js_get_Inr [OF t]
  show ?thesis
  proof (cases "truthy t")
    case True
    with assms a i t js_get_truthy [OF True, of "''blockNumber''"] show ?thesis
      by (auto simp: contractConfig_def emptyConfig_def eqs split: sum.splits)
  next
    case False
    with assms a i t show ?thesis
      by (auto simp: contractConfig_def emptyConfig_def eqs split: sum.splits)
  qed
qed

lemma contracts_loop_spec:
  "contracts_loop toHexString es acc = Inr cs \<Longrightarrow> distinct (map fst acc)
   \<Longrightarrow> distinct (map fst cs)
       \<and> fst ` set cs = fst ` set es \<union> fst ` set acc
       \<and> (\<forall>k c. map_of cs k = Some c
             \<longrightarrow> map_of acc k = Some c
                 \<or> (\<exists>val. (k, val) \<in> set es \<and> contractConfig toHexString val = Inr c))"
proof (induction es arbitrary: acc)
  case Nil
  then show ?case by simp
next
  case (Cons p es)
  obtain key val where p: "p = (key, val)" by (cases p)
  from Cons.prems(1) p obtain c0 where c0: "contractConfig toHexString val = Inr c0"
    and rest: "contracts_loop toHexString es (AList.update key c0 acc) = Inr cs"
    by (auto split: sum.splits)
  have d: "distinct (map fst (AList.update key c0 acc))"
    by (rule distinct_update [OF Cons.prems(2)])
  from Cons.IH [OF rest d] have dist: "distinct (map fst cs)"
    and keys: "fst ` set cs = fst ` set es \<union> fst ` set (AList.update key c0 acc)"
    and each: "\<forall>k c. map_of cs k = Some c
                 \<longrightarrow> map_of (AList.update key c0 acc) k = Some c
                     \<or> (\<exists>val. (k, val) \<in> set es \<and> contractConfig toHexString val = Inr c)"
    by blast+
  have "map_of acc k = Some c
          \<or> (\<exists>val. (k, val) \<in> set (p # es) \<and> contractConfig toHexString val = Inr c)"
    if m: "map_of cs k = Some c" for k c
  proof -
    from each m consider
        (new) "map_of (AList.update key c0 acc) k = Some c"
      | (old) "\<exists>val. (k, val) \<in> set es \<and> contractConfig toHexString val = Inr c"
      by blast
    then show ?thesis
    proof cases
      case new
      show ?thesis
      proof (cases "k = key")
        case True
        with new have "c = c0" by (simp add: update_conv')
        with c0 True show ?thesis by (auto simp: p)
      next
        case False
        with new show ?thesis by (simp add: update_conv')
      qed
    next
      case old
      then show ?thesis by auto
    qed
  qed
  moreover have "fst ` set cs = fst ` set (p # es) \<union> fst ` set acc"
    using keys by (auto simp: p dom_update)
  ultimately show ?case using dist by blast
qed

text \<open>
  C7, as amended. Whenever \<^verbatim>\<open>getNetworkConfig()\<close> returns, the result is the object
  \<^verbatim>\<open>{networks: {chainId: {contracts}}}\<close> with the single network key the decimal chain id
  of the session, and \<^verbatim>\<open>contracts\<close> has one entry for each key of the record's contracts.
  Each entry is \<^verbatim>\<open>{address, legacyAddresses, deploymentBlock, implementation}\<close>:
  \<^verbatim>\<open>address\<close> and \<^verbatim>\<open>implementation\<close> are those of the record, \<^verbatim>\<open>legacyAddresses\<close> is always
  the empty list (the record's own \<^verbatim>\<open>legacyAddresses\<close> is not read), and
  \<^verbatim>\<open>deploymentBlock\<close> is the hex string of the \<^verbatim>\<open>blockNumber\<close> of the recorded transaction
  when there is one and \<^verbatim>\<open>0x0\<close> otherwise. On an absent or empty file the result has no
  contracts.
\<close>

theorem getNetworkConfig_view:
  "(\<forall>r. getNetworkConfig toHexString this w = Inr r \<longrightarrow>
      (\<exists>config es cs. getDeployConfig this w = Inr config
         \<and> Object_entries (if truthy (field config ''contracts'')
                            then field config ''contracts'' else JObj []) = Inr es
         \<and> r = JObj [(''networks'',
                      JObj [(decimal (chainId this), JObj [(''contracts'', JObj cs)])])]
         \<and> distinct (map fst cs) \<and> fst ` set cs = fst ` set es
         \<and> (\<forall>(key, c) \<in> set cs. \<exists>val d. (key, val) \<in> set es
               \<and> c = JObj [(''address'', field val ''address''),
                           (''legacyAddresses'', JArr []),
                           (''deploymentBlock'', JStr d),
                           (''implementation'', field val ''implementation'')]
               \<and> (if truthy (field val ''transaction'')
                    then toHexString (field (field val ''transaction'') ''blockNumber'') = Inr d
                    else d = ''0x0''))))
   \<and> (files w (configPath this) = None \<or> files w (configPath this) = Some EmptyFile
        \<longrightarrow> getNetworkConfig toHexString this w
            = Inr (JObj [(''networks'',
                          JObj [(decimal (chainId this), JObj [(''contracts'', JObj [])])])]))"
proof (intro conjI allI impI)
  fix r
  assume run: "getNetworkConfig toHexString this w = Inr r"
  then obtain config c es cs where cfg: "getDeployConfig this w = Inr config"
    and c: "js_get config ''contracts'' = Inr c"
    and es: "Object_entries (if truthy c then c else JObj []) = Inr es"
    and loop: "contracts_loop toHexString es [] = Inr cs"
    and r: "r = JObj [(''networks'',
                      JObj [(decimal (chainId this), JObj [(''contracts'', JObj cs)])])]"
    by (auto simp: getNetworkConfig_def split: sum.splits)
  from contracts_loop_spec [OF loop] have dist: "distinct (map fst cs)"
    and keys: "fst ` set cs = fst ` set es"
    and each: "\<forall>k c. map_of cs k = Some c
                 \<longrightarrow> (\<exists>val. (k, val) \<in> set es \<and> contractConfig toHexString val = Inr c)"
    by auto
  have view: "\<forall>(key, c) \<in> set cs. \<exists>val d. (key, val) \<in> set es
               \<and> c = JObj [(''address'', field val ''address''),
                           (''legacyAddresses'', JArr []),
                           (''deploymentBlock'', JStr d),
                           (''implementation'', field val ''implementation'')]
               \<and> (if truthy (field val ''transaction'')
                    then toHexString (field (field val ''transaction'') ''blockNumber'') = Inr d
                    else d = ''0x0'')"
  proof (clarify)
    fix key c
    assume "(key, c) \<in> set cs"
    with dist have "map_of cs key = Some c" by simp
    with each obtain val where v: "(key, val) \<in> set es"
      and cc: "contractConfig toHexString val = Inr c"
      by blast
    from contractConfig_Inr [OF cc] v
    show "\<exists>val d. (key, val) \<in> set es
               \<and> c = JObj [(''address'', field val ''address''),
                           (''legacyAddresses'', JArr []),
                           (''deploymentBlock'', JStr d),
                           (''implementation'', field val ''implementation'')]
               \<and> (if truthy (field val ''transaction'')
                    then toHexString (field (field val ''transaction'') ''blockNumber'') = Inr d
                    else d = ''0x0'')"
      by blast
  qed
  from cfg es r dist keys view js_get_Inr [OF c]
  show "\<exists>config es cs. getDeployConfig this w = Inr config
         \<and> Object_entries (if truthy (field config ''contracts'')
                            then field config ''contracts'' else JObj []) = Inr es
         \<and> r = JObj [(''networks'',
                      JObj [(decimal (chainId this), JObj [(''contracts'', JObj cs)])])]
         \<and> distinct (map fst cs) \<and> fst ` set cs = fst ` set es
         \<and> (\<forall>(key, c) \<in> set cs. \<exists>val d. (key, val) \<in> set es
               \<and> c = JObj [(''address'', field val ''address''),
                           (''legacyAddresses'', JArr []),
                           (''deploymentBlock'', JStr d),
                           (''implementation'', field val ''implementation'')]
               \<and> (if truthy (field val ''transaction'')
                    then toHexString (field (field val ''transaction'') ''blockNumber'') = Inr d
                    else d = ''0x0''))"
    by blast
next
  assume "files w (configPath this) = None \<or> files w (configPath this) = Some EmptyFile"
  then show "getNetworkConfig toHexString this w
            = Inr (JObj [(''networks'',
                          JObj [(decimal (chainId this), JObj [(''contracts'', JObj [])])])])"
    by (auto simp: getNetworkConfig_def getDeployConfig_def lookup_def Object_entries_def)
qed

theorem getNetworkConfig_view_witness:
  "(\<exists>cs. getNetworkConfig sample_toHexString sample_session sample_world
           = Inr (JObj [(''networks'',
                    JObj [(decimal (chainId sample_session), JObj [(''contracts'', JObj cs)])])])
        \<and> fst ` set cs = {''UNSRegistry'', ''MintingManager''}
        \<and> (\<forall>(key, c) \<in> set cs. field c ''legacyAddresses'' = JArr []))
   \<and> getNetworkConfig sample_toHexString sample_session (sample_world\<lparr>files := Map.empty\<rparr>)
       = Inr (JObj [(''networks'', JObj [(''31337'', JObj [(''contracts'', JObj [])])])])"
proof -
  note v = getNetworkConfig_view [of sample_toHexString sample_session sample_world,
             THEN conjunct1, rule_format, OF sample_getNetworkConfig]
  from v obtain config es cs where cfg: "getDeployConfig sample_session sample_world = Inr config"
    and es: "Object_entries (if truthy (field config ''contracts'')
                             then field config ''contracts'' else JObj []) = Inr es"
    and r: "sample_view = JObj [(''networks'',
              JObj [(decimal (chainId sample_session), JObj [(''contracts'', JObj cs)])])]"
    and keys: "fst ` set cs = fst ` set es"
    and view: "\<forall>(key, c) \<in> set cs. \<exists>val d. (key, val) \<in> set es
               \<and> c = JObj [(''address'', field val ''address''),
                           (''legacyAddresses'', JArr []),
                           (''deploymentBlock'', JStr d),
                           (''implementation'', field val ''implementation'')]
               \<and> (if truthy (field val ''transaction'')
                    then sample_toHexString (field (field val ''transaction'') ''blockNumber'')
                           = Inr d
                    else d = ''0x0'')"
    by (elim exE conjE)
  from cfg sample_getDeployConfig have config: "config = sample_record" by simp
  have k: "fst ` set es = {''UNSRegistry'', ''MintingManager''}"
  proof -
    from es have "es = [(''UNSRegistry'',
                   JObj [(''address'', JStr ''0x5FbDB2315678afecb367f032d93F642f64180aa3''),
                         (''legacyAddresses'',
                          JArr [JStr ''0x0165878A594ca255338adfa4d48449f69242Eb8F'']),
                         (''transaction'', JObj [(''blockNumber'', JNum 26)])]),
                  (''MintingManager'',
                   JObj [(''address'', JStr ''0xe7f1725E7734CE288F8367e1Bb143E90bb3F0512''),
                         (''implementation'',
                          JStr ''0x9fE46736679d2D9a65F0992F2272dE9f3c7fa6e0'')])]"
      by (simp add: config sample_record_def field_def lookup_def Object_entries_def)
    then show ?thesis by simp
  qed
  have l: "\<forall>(key, c) \<in> set cs. field c ''legacyAddresses'' = JArr []"
  proof (clarify)
    fix key c
    assume mem: "(key, c) \<in> set cs"
    from bspec [OF view mem] obtain val d where
      "c = JObj [(''address'', field val ''address''), (''legacyAddresses'', JArr []),
                 (''deploymentBlock'', JStr d),
                 (''implementation'', field val ''implementation'')]"
      by (simp only: prod.case) (elim exE conjE)
    then show "field c ''legacyAddresses'' = JArr []"
      by (simp add: field_def lookup_def)
  qed
  have run: "getNetworkConfig sample_toHexString sample_session sample_world
             = Inr (JObj [(''networks'',
                      JObj [(decimal (chainId sample_session), JObj [(''contracts'', JObj cs)])])])"
    unfolding sample_getNetworkConfig r ..
  have keys': "fst ` set cs = {''UNSRegistry'', ''MintingManager''}"
    using keys k by (simp only:)
  from run keys' l have first:
    "\<exists>cs. getNetworkConfig sample_toHexString sample_session sample_world
           = Inr (JObj [(''networks'',
                    JObj [(decimal (chainId sample_session), JObj [(''contracts'', JObj cs)])])])
        \<and> fst ` set cs = {''UNSRegistry'', ''MintingManager''}
        \<and> (\<forall>(key, c) \<in> set cs. field c ''legacyAddresses'' = JArr [])"
    by (intro exI [of _ cs] conjI)
  have "files (sample_world\<lparr>files := Map.empty\<rparr>) (configPath sample_session) = None
        \<or> files (sample_world\<lparr>files := Map.empty\<rparr>) (configPath sample_session)
            = Some EmptyFile"
    by simp
  from getNetworkConfig_view [of sample_toHexString sample_session
         "sample_world\<lparr>files := Map.empty\<rparr>", THEN conjunct2, rule_format, OF this]
  have second:
    "getNetworkConfig sample_toHexString sample_session (sample_world\<lparr>files := Map.empty\<rparr>)
       = Inr (JObj [(''networks'', JObj [(''31337'', JObj [(''contracts'', JObj [])])])])"
    by (simp add: sample_session_def decimal_31337)
  from first second show ?thesis by (rule conjI)
qed

text \<open>
  C7 as stated fails: the sample record gives \<^verbatim>\<open>UNSRegistry\<close> one legacy address, and the
  rendered entry has the empty list; the rendered entries also carry \<^verbatim>\<open>implementation\<close>.
\<close>

theorem getNetworkConfig_legacyAddresses_counterexample:
  "getNetworkConfig sample_toHexString sample_session sample_world = Inr sample_view
   \<and> field (field (field sample_record ''contracts'') ''UNSRegistry'') ''legacyAddresses''
       = JArr [JStr ''0x0165878A594ca255338adfa4d48449f69242Eb8F'']
   \<and> field (field (field (field (field sample_view ''networks'') ''31337'') ''contracts'')
               ''UNSRegistry'') ''legacyAddresses''
       = JArr []
   \<and> field (field (field (field (field sample_view ''networks'') ''31337'') ''contracts'')
               ''MintingManager'') ''implementation''
       = JStr ''0x9fE46736679d2D9a65F0992F2272dE9f3c7fa6e0''"
  by (simp add: sample_getNetworkConfig)
     (simp add: sample_record_def sample_view_def field_def lookup_def)

subsection \<open>The selection and the order of the tasks\<close>

lemma selected_iff:
  "selected toLowerCase requested task
   \<longleftrightarrow> list_ex (\<lambda>t. toLowerCase t \<in> set (tags task)) requested"
  by (auto simp: selected_def list_ex_iff)

lemma events_from_Nil: "events_from toLowerCase requested i [] = []"
  by (simp add: events_from_def)

lemma events_from_Cons:
  "events_from toLowerCase requested i (t # ts) =
     (if selected toLowerCase requested t then [EnsureDependencies i, Run i] else [])
     @ events_from toLowerCase requested (Suc i) ts"
proof -
  have u: "[0..<length (t # ts)] = 0 # map Suc [0..<length ts]"
    by (simp add: upt_conv_Cons map_Suc_upt del: upt_Suc)
  show ?thesis
    unfolding events_from_def u
    by (simp add: filter_map comp_def)
qed

lemma expected_events_from:
  "expected_events toLowerCase requested ts = events_from toLowerCase requested 0 ts"
  by (simp add: expected_events_def events_from_def)

lemma run_tasks_refines:
  "run_tasks toLowerCase this requested config i ts w = (w', evs, r)
   \<Longrightarrow> run_in_order this config (filter (selected toLowerCase requested) ts) w = (w', r)
       \<and> prefix evs (events_from toLowerCase requested i ts)
       \<and> (r = None \<longrightarrow> evs = events_from toLowerCase requested i ts)"
proof (induction ts arbitrary: i w w' evs r)
  case Nil
  then show ?case by (simp add: events_from_Nil)
next
  case (Cons t ts)
  show ?case
  proof (cases "selected toLowerCase requested t")
    case False
    with Cons.prems
    have "run_tasks toLowerCase this requested config (Suc i) ts w = (w', evs, r)"
      by (simp add: selected_iff)
    from Cons.IH [OF this] False show ?thesis
      by (simp add: events_from_Cons)
  next
    case True
    note sel = True
    show ?thesis
    proof (cases "ensureDependencies t this config w")
      case (Inl e)
      with Cons.prems sel show ?thesis
        by (auto simp: selected_iff events_from_Cons task_step_def)
    next
      case (Inr deps)
      obtain w1 r1 where run: "run t this deps w = (w1, r1)"
        by (cases "run t this deps w")
      show ?thesis
      proof (cases r1)
        case (Some e)
        with Cons.prems sel Inr run show ?thesis
          by (auto simp: selected_iff events_from_Cons task_step_def)
      next
        case None
        obtain w2 evs2 r2 where rest:
          "run_tasks toLowerCase this requested config (Suc i) ts w1 = (w2, evs2, r2)"
          by (cases "run_tasks toLowerCase this requested config (Suc i) ts w1")
        from Cons.IH [OF rest] Cons.prems sel Inr run None rest show ?thesis
          by (auto simp: selected_iff events_from_Cons task_step_def)
      qed
    qed
  qed
qed

lemma run_tasks_no_tags: "run_tasks toLowerCase this [] config i ts w = (w, [], None)"
  by (induction ts arbitrary: i) simp_all

text \<open>
  C8, as amended. A call of \<^verbatim>\<open>execute\<close> reaches the world, and ends with the failure if
  any, of running in list order the tasks whose tag set meets the requested tags in lower
  case: each of them its dependency phase and then its run phase, on the bundle the
  dependency phase returned. A failure in either phase ends the run there, in the world
  reached, and the later tasks are not run; the call then fails with that error. The
  phases invoked are a prefix of the expected phases and, when no phase fails, all of
  them, and the result is then the view of the record in the world reached. With the tags
  omitted or empty no phase is invoked and the world is unchanged. The requested tags are
  lowered and the tags of the tasks are not: a task whose tags are all in lower case is
  selected exactly when one of the requested tags equals one of its tags up to case. The
  constructor, when it does not throw, lists the four tasks in the order \<^verbatim>\<open>deployCNS\<close>,
  \<^verbatim>\<open>deployUNS\<close>, \<^verbatim>\<open>configureCNS\<close>, \<^verbatim>\<open>upgradeUNS\<close>.
\<close>

theorem execute_runs_selected_in_order:
  fixes this :: "('c, 'b, 'l) deployer"
  assumes "execute toLowerCase toHexString this tags_arg config w = (w', evs, r)"
  shows "(\<exists>e. run_in_order (session.truncate this) config
               (filter (selected toLowerCase (requested_tags tags_arg)) (tasks this)) w
             = (w', e)
           \<and> r = (case e of Some err \<Rightarrow> Inl err
                           | None \<Rightarrow> getNetworkConfig toHexString this w')
           \<and> prefix evs (expected_events toLowerCase (requested_tags tags_arg) (tasks this))
           \<and> (e = None
                \<longrightarrow> evs = expected_events toLowerCase (requested_tags tags_arg) (tasks this)))
    \<and> (tags_arg = None \<or> tags_arg = Some []
         \<longrightarrow> evs = [] \<and> w' = w \<and> r = getNetworkConfig toHexString this w)
    \<and> (\<forall>task \<in> set (tasks this).
          (\<forall>tag \<in> set (tags task). toLowerCase tag = tag)
          \<longrightarrow> (selected toLowerCase (requested_tags tags_arg) task
               \<longleftrightarrow> (\<exists>t \<in> set (requested_tags tags_arg). \<exists>tag \<in> set (tags task).
                      toLowerCase t = toLowerCase tag)))
    \<and> (\<forall>mkdirSync opts arts accs mints link cid t1 t2 t3 t4 (w0 :: 'l world) w1
          (d :: ('c, 'b, 'l) deployer).
          new_Deployer mkdirSync opts arts accs mints link cid t1 t2 t3 t4 w0 = Inr (d, w1)
          \<longrightarrow> tasks d = [t1, t2, t3, t4])"
proof -
  let ?req = "requested_tags tags_arg"
  obtain w1 evs1 e where rt:
    "run_tasks toLowerCase (session.truncate this) ?req config 0 (tasks this) w = (w1, evs1, e)"
    by (cases "run_tasks toLowerCase (session.truncate this) ?req config 0 (tasks this) w")
  from assms rt have ev: "evs = evs1" and w: "w' = w1"
    and r: "r = (case e of Some err \<Rightarrow> Inl err
                         | None \<Rightarrow> getNetworkConfig toHexString this w')"
    by (auto simp: execute_def Let_def split: option.splits)
  from run_tasks_refines [OF rt]
  have ord: "run_in_order (session.truncate this) config
               (filter (selected toLowerCase ?req) (tasks this)) w = (w1, e)"
    and p: "prefix evs1 (events_from toLowerCase ?req 0 (tasks this))"
    and q: "e = None \<longrightarrow> evs1 = events_from toLowerCase ?req 0 (tasks this)"
    by blast+
  have a: "\<exists>e. run_in_order (session.truncate this) config
               (filter (selected toLowerCase ?req) (tasks this)) w = (w', e)
           \<and> r = (case e of Some err \<Rightarrow> Inl err
                           | None \<Rightarrow> getNetworkConfig toHexString this w')
           \<and> prefix evs (expected_events toLowerCase ?req (tasks this))
           \<and> (e = None \<longrightarrow> evs = expected_events toLowerCase ?req (tasks this))"
    apply (rule exI [of _ e])
    using ord p q r by (simp add: ev w expected_events_from)
  have c: "tags_arg = None \<or> tags_arg = Some []
           \<longrightarrow> evs = [] \<and> w' = w \<and> r = getNetworkConfig toHexString this w"
    using rt ev w r by (auto simp: run_tasks_no_tags requested_tags_def)
  have d: "\<forall>task \<in> set (tasks this).
          (\<forall>tag \<in> set (tags task). toLowerCase tag = tag)
          \<longrightarrow> (selected toLowerCase ?req task
               \<longleftrightarrow> (\<exists>t \<in> set ?req. \<exists>tag \<in> set (tags task).
                      toLowerCase t = toLowerCase tag))"
    by (auto simp: selected_def)
  have f: "\<forall>mkdirSync opts arts accs mints link cid t1 t2 t3 t4 (w0 :: 'l world) w1
          (d :: ('c, 'b, 'l) deployer).
          new_Deployer mkdirSync opts arts accs mints link cid t1 t2 t3 t4 w0 = Inr (d, w1)
          \<longrightarrow> tasks d = [t1, t2, t3, t4]"
    by (auto simp: new_Deployer_def Let_def split: if_splits sum.splits)
  from a c d f show ?thesis by (intro conjI)
qed

theorem execute_runs_selected_in_order_witness:
  "execute ascii_toLowerCase sample_toHexString sample_deployer (Some [''FULL'']) JNull
       sample_ledger_world
     = (sample_ledger_world\<lparr>ledger := [JStr ''deployCNS'', JStr ''deployUNS'',
                                         JStr ''configureCNS'']\<rparr>,
        [EnsureDependencies 0, Run 0, EnsureDependencies 1, Run 1,
         EnsureDependencies 2, Run 2],
        Inr sample_view)
   \<and> execute ascii_toLowerCase sample_toHexString sample_deployer None JNull
         sample_ledger_world
       = (sample_ledger_world, [], Inr sample_view)
   \<and> selected ascii_toLowerCase [''FULL''] (sample_task ''deployUNS'' [''uns'', ''full''])
   \<and> tasks sample_deployer = [sample_task ''deployCNS'' [''cns'', ''full''],
                              sample_task ''deployUNS'' [''uns'', ''full''],
                              sample_task ''configureCNS'' [''uns_config_cns'', ''full''],
                              sample_task ''upgradeUNS'' [''uns_upgrade'', ''upgrade'']]"
proof -
  obtain w' evs r where run:
    "execute ascii_toLowerCase sample_toHexString sample_deployer (Some [''FULL'']) JNull
       sample_ledger_world = (w', evs, r)"
    by (cases "execute ascii_toLowerCase sample_toHexString sample_deployer (Some [''FULL''])
                 JNull sample_ledger_world")
  note main = execute_runs_selected_in_order [OF run]
  from main [THEN conjunct1] obtain e where
    ord: "run_in_order (session.truncate sample_deployer) JNull
            (filter (selected ascii_toLowerCase (requested_tags (Some [''FULL''])))
               (tasks sample_deployer)) sample_ledger_world = (w', e)"
    and r: "r = (case e of Some err \<Rightarrow> Inl err
                         | None \<Rightarrow> getNetworkConfig sample_toHexString sample_deployer w')"
    and evs: "e = None \<longrightarrow> evs = expected_events ascii_toLowerCase
                                  (requested_tags (Some [''FULL''])) (tasks sample_deployer)"
    by (elim exE conjE)
  have sel: "filter (selected ascii_toLowerCase (requested_tags (Some [''FULL''])))
               (tasks sample_deployer)
             = [sample_task ''deployCNS'' [''cns'', ''full''],
                sample_task ''deployUNS'' [''uns'', ''full''],
                sample_task ''configureCNS'' [''uns_config_cns'', ''full'']]"
    by (simp add: sample_tasks selected_def requested_tags_def sample_task_fields
        ascii_toLowerCase_examples)
  from ord have w': "w' = sample_ledger_world\<lparr>ledger := [JStr ''deployCNS'',
                         JStr ''deployUNS'', JStr ''configureCNS'']\<rparr>"
    and e: "e = None"
    unfolding sel by (simp_all add: task_step_def sample_task_fields ledger_sample)
  have ex: "expected_events ascii_toLowerCase (requested_tags (Some [''FULL'']))
              (tasks sample_deployer)
            = [EnsureDependencies 0, Run 0, EnsureDependencies 1, Run 1,
               EnsureDependencies 2, Run 2]"
    by (simp add: expected_events_from events_from_Cons events_from_Nil sample_tasks
        selected_def requested_tags_def sample_task_fields ascii_toLowerCase_examples)
  from r e have r': "r = Inr sample_view"
    by (simp add: w' ledger_getNetworkConfig sample_deployer_fields)
  from evs e ex have evs': "evs = [EnsureDependencies 0, Run 0, EnsureDependencies 1, Run 1,
               EnsureDependencies 2, Run 2]"
    by simp
  have a: "execute ascii_toLowerCase sample_toHexString sample_deployer (Some [''FULL''])
             JNull sample_ledger_world
     = (sample_ledger_world\<lparr>ledger := [JStr ''deployCNS'', JStr ''deployUNS'',
                                         JStr ''configureCNS'']\<rparr>,
        [EnsureDependencies 0, Run 0, EnsureDependencies 1, Run 1,
         EnsureDependencies 2, Run 2],
        Inr sample_view)"
    using run w' evs' r' by simp
  obtain w0 evs0 r0 where none:
    "execute ascii_toLowerCase sample_toHexString sample_deployer None JNull
       sample_ledger_world = (w0, evs0, r0)"
    by (cases "execute ascii_toLowerCase sample_toHexString sample_deployer None JNull
                 sample_ledger_world")
  from execute_runs_selected_in_order [OF none, THEN conjunct2, THEN conjunct1]
  have "evs0 = [] \<and> w0 = sample_ledger_world
        \<and> r0 = getNetworkConfig sample_toHexString sample_deployer sample_ledger_world"
    by simp
  moreover have "getNetworkConfig sample_toHexString sample_deployer sample_ledger_world
                 = Inr sample_view"
    using ledger_getNetworkConfig [of sample_deployer "[]"]
    by (simp add: sample_deployer_fields sample_ledger_world_def)
  ultimately have b: "execute ascii_toLowerCase sample_toHexString sample_deployer None JNull
         sample_ledger_world = (sample_ledger_world, [], Inr sample_view)"
    using none by simp
  have mem: "sample_task ''deployUNS'' [''uns'', ''full''] \<in> set (tasks sample_deployer)"
    by (simp add: sample_tasks)
  have low: "\<forall>tag \<in> set (tags (sample_task ''deployUNS'' [''uns'', ''full''])).
               ascii_toLowerCase tag = tag"
    by (simp add: sample_task_fields ascii_toLowerCase_def)
  from main [THEN conjunct2, THEN conjunct2, THEN conjunct1, THEN bspec, OF mem, THEN mp,
             OF low]
  have c: "selected ascii_toLowerCase [''FULL''] (sample_task ''deployUNS'' [''uns'', ''full''])"
    by (simp add: requested_tags_def sample_task_fields ascii_toLowerCase_examples)
  from main [THEN conjunct2, THEN conjunct2, THEN conjunct2, rule_format,
            OF sample_new_Deployer]
  have d: "tasks sample_deployer = [sample_task ''deployCNS'' [''cns'', ''full''],
                              sample_task ''deployUNS'' [''uns'', ''full''],
                              sample_task ''configureCNS'' [''uns_config_cns'', ''full''],
                              sample_task ''upgradeUNS'' [''uns_upgrade'', ''upgrade'']]" .
  from a b c d show ?thesis by (intro conjI)
qed

text \<open>
  C8 as stated, for every task list, fails in two ways. A task tagged \<^verbatim>\<open>Full\<close> is not run by
  a request for \<^verbatim>\<open>Full\<close>: the requested tag is lowered and the tag of the task is not, so
  the two do not match although they are equal. And a selected task is not run when an
  earlier one fails: the run phase of the first task throws, the call fails with that
  error, and the second task, which is selected, never runs.
\<close>

theorem execute_exactly_selected_counterexample:
  "execute ascii_toLowerCase sample_toHexString capital_deployer (Some [''Full'']) JNull
       sample_ledger_world
     = (sample_ledger_world\<lparr>ledger := [JStr ''deployUNS'']\<rparr>,
        [EnsureDependencies 1, Run 1], Inr sample_view)
   \<and> tags (tasks capital_deployer ! 0) = [''Full'']
   \<and> execute ascii_toLowerCase sample_toHexString failing_deployer (Some [''full'']) JNull
         sample_ledger_world
       = (sample_ledger_world\<lparr>ledger := [JStr ''deployCNS'']\<rparr>,
          [EnsureDependencies 0, Run 0], Inl (Thrown ''transaction reverted''))
   \<and> selected ascii_toLowerCase [''full''] (tasks failing_deployer ! 1)"
proof -
  have a: "execute ascii_toLowerCase sample_toHexString capital_deployer (Some [''Full''])
             JNull sample_ledger_world
     = (sample_ledger_world\<lparr>ledger := [JStr ''deployUNS'']\<rparr>,
        [EnsureDependencies 1, Run 1], Inr sample_view)"
    by (simp add: execute_def requested_tags_def sample_tasks sample_task_fields
        ascii_toLowerCase_examples ledger_sample ledger_getNetworkConfig
        sample_deployer_fields Let_def)
  have b: "tags (tasks capital_deployer ! 0) = [''Full'']"
    by (simp add: sample_tasks sample_task_fields)
  have c: "execute ascii_toLowerCase sample_toHexString failing_deployer (Some [''full''])
             JNull sample_ledger_world
       = (sample_ledger_world\<lparr>ledger := [JStr ''deployCNS'']\<rparr>,
          [EnsureDependencies 0, Run 0], Inl (Thrown ''transaction reverted''))"
    by (simp add: execute_def requested_tags_def sample_tasks sample_task_fields
        ascii_toLowerCase_examples ledger_sample Let_def)
  have d: "selected ascii_toLowerCase [''full''] (tasks failing_deployer ! 1)"
    by (simp add: selected_def sample_tasks sample_task_fields ascii_toLowerCase_examples)
  from a b c d show ?thesis by (intro conjI)
qed

subsection \<open>The frame of a saved contract\<close>

lemma lookup_update: "lookup (AList.update k v kvs) k' = (if k' = k then v else lookup kvs k')"
  by (simp add: lookup_def update_conv')

lemma lookup_Nil: "lookup [] k = JUndefined"
  by (simp add: lookup_def)

lemma lookup_absent: "k \<notin> fst ` set kvs \<Longrightarrow> lookup kvs k = JUndefined"
  by (simp add: lookup_def map_of_eq_None_iff [THEN iffD2])

lemma baseMergeDeep_defined:
  "baseMergeDeep ov sv = Some x \<Longrightarrow> x = JUndefined \<Longrightarrow> ov = JUndefined"
  by (cases sv; cases ov) (auto split: if_splits)

lemma lookup_assign:
  "baseMergeDeep (lookup kvs k) sv = Some x
   \<Longrightarrow> lookup (assignMergeValue kvs k x) k' = (if k' = k then x else lookup kvs k')"
  by (auto simp: assignMergeValue_def lookup_update dest: baseMergeDeep_defined)

lemma distinct_assign:
  "distinct (map fst kvs) \<Longrightarrow> distinct (map fst (assignMergeValue kvs k x))"
  by (simp add: assignMergeValue_def distinct_update)

lemma baseMerge_frame:
  "baseMerge ops sps = Some ops' \<Longrightarrow> k \<notin> fst ` set sps \<Longrightarrow> lookup ops' k = lookup ops k"
proof (induction sps arbitrary: ops)
  case Nil
  then show ?case by simp
next
  case (Cons p sps)
  obtain k0 sv where p: "p = (k0, sv)" by (cases p)
  from Cons.prems p obtain x where x: "baseMergeDeep (lookup ops k0) sv = Some x"
    and rest: "baseMerge (assignMergeValue ops k0 x) sps = Some ops'"
    by (auto split: option.splits)
  from Cons.prems p have "k \<noteq> k0" and "k \<notin> fst ` set sps" by auto
  with Cons.IH [OF rest] lookup_assign [OF x] show ?case by simp
qed

lemma baseMerge_distinct:
  "baseMerge ops sps = Some ops' \<Longrightarrow> distinct (map fst ops) \<Longrightarrow> distinct (map fst ops')"
proof (induction sps arbitrary: ops)
  case Nil
  then show ?case by simp
next
  case (Cons p sps)
  obtain k0 sv where p: "p = (k0, sv)" by (cases p)
  from Cons.prems p obtain x where
    rest: "baseMerge (assignMergeValue ops k0 x) sps = Some ops'"
    by (auto split: option.splits)
  from Cons.IH [OF rest] Cons.prems(2) show ?case by (simp add: distinct_assign)
qed

lemma json_props_key: "(k, v) \<in> set (json_props kvs) \<Longrightarrow> k \<in> fst ` set kvs"
  by (induction kvs) (force split: if_splits)+

lemma json_props_keys: "fst ` set (json_props kvs) \<subseteq> fst ` set kvs"
  by (auto dest: json_props_key)

lemma lookup_json_props:
  "distinct (map fst kvs) \<Longrightarrow> lookup (json_props kvs) k = json_of (lookup kvs k)"
proof (induction kvs)
  case Nil
  then show ?case by (simp add: lookup_def)
next
  case (Cons p kvs)
  obtain k0 v where p: "p = (k0, v)" by (cases p)
  from Cons.prems p have nk: "k0 \<notin> fst ` set kvs" and d: "distinct (map fst kvs)" by auto
  from nk json_props_keys have "k0 \<notin> fst ` set (json_props kvs)" by blast
  then have u: "lookup (json_props kvs) k0 = JUndefined" by (rule lookup_absent)
  from Cons.IH [OF d] u show ?case
    by (auto simp: p lookup_def)
qed

lemma is_json_fix:
  "(is_json v \<longrightarrow> json_of v = v)"
  "(is_json_props kvs \<longrightarrow> json_props kvs = kvs)"
  "(is_json_elems xs \<longrightarrow> json_elems xs = xs)"
  by (induction v and kvs and xs rule: json_of_json_props_json_elems.induct) auto

lemma json_or_undefined_fix: "json_or_undefined v \<Longrightarrow> json_of v = v"
  by (auto simp: json_or_undefined_def is_json_fix)

lemma is_json_props_lookup: "is_json_props kvs \<Longrightarrow> json_or_undefined (lookup kvs k)"
  by (induction kvs) (auto simp: lookup_def json_or_undefined_def)

lemma json_or_undefined_field: "json_or_undefined v \<Longrightarrow> json_or_undefined (field v k)"
  by (cases v) (auto simp: field_def json_or_undefined_def dest: is_json_props_lookup)

lemma merged_props_frame:
  assumes "baseMerge ops sps = Some ops'" and "distinct (map fst ops)"
      and "k \<notin> fst ` set sps"
  shows "lookup (json_props ops') k = json_of (lookup ops k)"
  using lookup_json_props [OF baseMerge_distinct [OF assms(1,2)], of k]
        baseMerge_frame [OF assms(1,3)]
  by simp

lemma baseMergeDeep_object_cases:
  assumes "baseMergeDeep ov (JObj sps) = Some nv"
  obtains (obj) ops ops' where "ov = JObj ops" "baseMerge ops sps = Some ops'" "nv = JObj ops'"
    | (arr) oxs where "ov = JArr oxs" "nv = ov"
    | (fresh) ops' where "field ov = (\<lambda>_. JUndefined)" "baseMerge [] sps = Some ops'"
        "nv = JObj ops'"
  using assms by (cases ov) (auto simp: field_def fun_eq_iff split: if_splits)

lemma baseMergeDeep_frame:
  assumes "baseMergeDeep ov (JObj sps) = Some nv" and "json_or_undefined ov"
      and "k \<notin> fst ` set sps"
  shows "field (json_of nv) k = field ov k"
  using assms(1)
proof (cases rule: baseMergeDeep_object_cases)
  case (obj ops ops')
  from assms(2) obj(1) have d: "distinct (map fst ops)" and j: "is_json_props ops"
    by (auto simp: json_or_undefined_def)
  have "field (json_of nv) k = json_of (lookup ops k)"
    by (simp add: obj(3) field_def merged_props_frame [OF obj(2) d assms(3)])
  also have "\<dots> = lookup ops k"
    by (rule json_or_undefined_fix [OF is_json_props_lookup [OF j]])
  finally show ?thesis by (simp add: obj(1) field_def)
next
  case (arr oxs)
  have "json_of nv = ov"
    by (simp only: arr(2) json_or_undefined_fix [OF assms(2)])
  then show ?thesis by (simp only:)
next
  case (fresh ops')
  have "field (json_of nv) k = json_of (lookup [] k)"
    by (simp add: fresh(3) field_def merged_props_frame [OF fresh(2) _ assms(3)])
  then show ?thesis by (simp add: fresh(1) lookup_Nil)
qed

lemma baseMergeDeep_descend:
  assumes "baseMergeDeep ov (JObj [(k, JObj sps)]) = Some nv" and "json_or_undefined ov"
  shows "json_of nv = ov \<and> (\<exists>oxs. ov = JArr oxs)
         \<or> (\<exists>x. baseMergeDeep (field ov k) (JObj sps) = Some x
                \<and> field (json_of nv) k = json_of x)"
  using assms(1)
proof (cases rule: baseMergeDeep_object_cases)
  case (obj ops ops')
  from assms(2) obj(1) have d: "distinct (map fst ops)"
    by (auto simp: json_or_undefined_def)
  from obj(2) obtain x where x: "baseMergeDeep (lookup ops k) (JObj sps) = Some x"
    and ops': "ops' = assignMergeValue ops k x"
    by (auto split: option.splits)
  have "field (json_of nv) k = json_of (lookup ops' k)"
    by (simp add: obj(3) field_def lookup_json_props [OF baseMerge_distinct [OF obj(2) d]])
  also have "\<dots> = json_of x"
    by (simp add: ops' lookup_assign [OF x])
  finally show ?thesis using x by (simp add: obj(1) field_def)
next
  case (arr oxs)
  have "json_of nv = ov"
    by (simp only: arr(2) json_or_undefined_fix [OF assms(2)])
  with arr(1) show ?thesis by blast
next
  case (fresh ops')
  from fresh(2) obtain x where x: "baseMergeDeep (lookup [] k) (JObj sps) = Some x"
    and ops': "ops' = assignMergeValue [] k x"
    by (auto split: option.splits)
  have "distinct (map fst ops')"
    by (rule baseMerge_distinct [OF fresh(2)]) simp
  then have "field (json_of nv) k = json_of (lookup ops' k)"
    by (simp add: fresh(3) field_def lookup_json_props)
  also have "\<dots> = json_of x"
    by (simp add: ops' lookup_assign [OF x])
  finally have eq: "field (json_of nv) k = json_of x" .
  have "baseMergeDeep (field ov k) (JObj sps) = Some x"
    using x by (simp only: fresh(1) lookup_Nil)
  with eq show ?thesis by blast
qed

lemma merge_as_deep:
  assumes "merge config (JObj sps) = Some m" and "is_json config"
  shows "json_of m = config \<and> field config = (\<lambda>_. JUndefined)
         \<or> baseMergeDeep config (JObj sps) = Some m"
  using assms by (cases config) (auto simp: merge_def field_def fun_eq_iff is_json_fix)

text \<open>
  C9. When \<^verbatim>\<open>saveContractConfig(name, contract, implAddress)\<close> completes on a persisted
  record, the record read back is the serialised merge of the old record with
  \<^verbatim>\<open>{contracts: {name: {address, implementation, transaction}}}\<close>, and in it every contract
  entry other than \<^verbatim>\<open>name\<close> is what it was, every field of the entry \<^verbatim>\<open>name\<close> other than
  \<^verbatim>\<open>address\<close>, \<^verbatim>\<open>implementation\<close> and \<^verbatim>\<open>transaction\<close> is what it was, and the files of the
  other networks are untouched.
\<close>

theorem saveContractConfig_frame:
  assumes "saveContractConfig this name contract implAddress w = Some (w', None)"
      and "getDeployConfig this w = Inr config"
      and "is_json config"
  shows "\<exists>config'. getDeployConfig this w' = Inr config'
     \<and> (\<exists>transaction merged.
           merge config (JObj [(''contracts'',
               JObj [(name, JObj [(''address'', address contract),
                                  (''implementation'', implAddress),
                                  (''transaction'', transaction)])])]) = Some merged
           \<and> config' = json_of merged)
     \<and> (\<forall>other. other \<noteq> name
           \<longrightarrow> field (field config' ''contracts'') other
               = field (field config ''contracts'') other)
     \<and> (\<forall>f. f \<notin> {''address'', ''implementation'', ''transaction''}
           \<longrightarrow> field (field (field config' ''contracts'') name) f
               = field (field (field config ''contracts'') name) f)
     \<and> (\<forall>p. p \<noteq> configPath this \<longrightarrow> files w' p = files w p)"
proof -
  from assms(1,2) obtain tx m where
    m: "merge config (JObj [(''contracts'',
          JObj [(name, JObj [(''address'', address contract),
                             (''implementation'', implAddress),
                             (''transaction'', tx)])])]) = Some m"
    and w': "w' = w\<lparr>files := (files w)(configPath this \<mapsto> JsonText (json_of m))\<rparr>"
    by (auto simp: saveContractConfig_def split: sum.splits option.splits)
  let ?entry = "[(''address'', address contract), (''implementation'', implAddress),
                 (''transaction'', tx)]"
  have get: "getDeployConfig this w' = Inr (json_of m)"
    by (simp add: w' getDeployConfig_def)
  have files: "\<forall>p. p \<noteq> configPath this \<longrightarrow> files w' p = files w p"
    by (simp add: w')
  have jc: "json_or_undefined config"
    using assms(3) by (simp add: json_or_undefined_def)
  have jcs: "json_or_undefined (field config ''contracts'')"
    by (rule json_or_undefined_field [OF jc])
  have je: "json_or_undefined (field (field config ''contracts'') name)"
    by (rule json_or_undefined_field [OF jcs])
  have frame:
    "(\<forall>other. other \<noteq> name
        \<longrightarrow> field (field (json_of m) ''contracts'') other
            = field (field config ''contracts'') other)
     \<and> (\<forall>f. f \<notin> {''address'', ''implementation'', ''transaction''}
        \<longrightarrow> field (field (field (json_of m) ''contracts'') name) f
            = field (field (field config ''contracts'') name) f)"
  proof -
    from merge_as_deep [OF m assms(3)] show ?thesis
    proof
      assume "json_of m = config \<and> field config = (\<lambda>_. JUndefined)"
      then show ?thesis by simp
    next
      assume deep: "baseMergeDeep config (JObj [(''contracts'', JObj [(name, JObj ?entry)])])
                    = Some m"
      from baseMergeDeep_descend [OF deep jc] show ?thesis
      proof
        assume "json_of m = config \<and> (\<exists>oxs. config = JArr oxs)"
        then show ?thesis by auto
      next
        assume "\<exists>x. baseMergeDeep (field config ''contracts'') (JObj [(name, JObj ?entry)])
                      = Some x
                  \<and> field (json_of m) ''contracts'' = json_of x"
        then obtain x1 where
          x1: "baseMergeDeep (field config ''contracts'') (JObj [(name, JObj ?entry)]) = Some x1"
          and f1: "field (json_of m) ''contracts'' = json_of x1"
          by blast
        have others: "\<forall>other. other \<noteq> name
            \<longrightarrow> field (json_of x1) other = field (field config ''contracts'') other"
          using baseMergeDeep_frame [OF x1 jcs] by simp
        from baseMergeDeep_descend [OF x1 jcs]
        have "\<forall>f. f \<notin> {''address'', ''implementation'', ''transaction''}
          \<longrightarrow> field (field (json_of x1) name) f
              = field (field (field config ''contracts'') name) f"
        proof
          assume "json_of x1 = field config ''contracts''
                  \<and> (\<exists>oxs. field config ''contracts'' = JArr oxs)"
          then show ?thesis by auto
        next
          assume "\<exists>x. baseMergeDeep (field (field config ''contracts'') name) (JObj ?entry)
                        = Some x
                    \<and> field (json_of x1) name = json_of x"
          then obtain x2 where
            x2: "baseMergeDeep (field (field config ''contracts'') name) (JObj ?entry) = Some x2"
            and f2: "field (json_of x1) name = json_of x2"
            by blast
          show ?thesis
            using baseMergeDeep_frame [OF x2 je] by (simp add: f2)
        qed
        with others show ?thesis by (simp add: f1)
      qed
    qed
  qed
  have merged: "\<exists>transaction merged.
           merge config (JObj [(''contracts'',
               JObj [(name, JObj [(''address'', address contract),
                                  (''implementation'', implAddress),
                                  (''transaction'', transaction)])])]) = Some merged
           \<and> json_of m = json_of merged"
    using m by blast
  show ?thesis
    apply (rule exI [of _ "json_of m"])
    apply (rule conjI, rule get)
    apply (rule conjI, rule merged)
    apply (rule conjI, rule frame [THEN conjunct1])
    apply (rule conjI, rule frame [THEN conjunct2])
    apply (rule files)
    done
qed

theorem saveContractConfig_frame_witness:
  "\<exists>w' config'.
      saveContractConfig sample_session ''UNSRegistry'' sample_contract JUndefined sample_world
        = Some (w', None)
    \<and> getDeployConfig sample_session sample_world = Inr sample_record
    \<and> is_json sample_record
    \<and> getDeployConfig sample_session w' = Inr config'
    \<and> field (field config' ''contracts'') ''MintingManager''
        = field (field sample_record ''contracts'') ''MintingManager''
    \<and> field (field (field config' ''contracts'') ''UNSRegistry'') ''legacyAddresses''
        = JArr [JStr ''0x0165878A594ca255338adfa4d48449f69242Eb8F'']"
proof -
  have "\<exists>w'. saveContractConfig sample_session ''UNSRegistry'' sample_contract JUndefined
               sample_world = Some (w', None)"
    by (simp add: saveContractConfig_def sample_getDeployConfig sample_contract_def)
       (simp add: sample_record_def merge_def lookup_def assignMergeValue_def)
  then obtain w' where
    save: "saveContractConfig sample_session ''UNSRegistry'' sample_contract JUndefined
             sample_world = Some (w', None)"
    by blast
  have legacy: "field (field (field sample_record ''contracts'') ''UNSRegistry'')
                ''legacyAddresses'' = JArr [JStr ''0x0165878A594ca255338adfa4d48449f69242Eb8F'']"
    by (simp add: sample_record_def field_def lookup_def)
  from saveContractConfig_frame [OF save sample_getDeployConfig is_json_sample_record]
  obtain config' where get: "getDeployConfig sample_session w' = Inr config'"
    and others: "\<forall>other. other \<noteq> ''UNSRegistry''
           \<longrightarrow> field (field config' ''contracts'') other
               = field (field sample_record ''contracts'') other"
    and fields: "\<forall>f. f \<notin> {''address'', ''implementation'', ''transaction''}
           \<longrightarrow> field (field (field config' ''contracts'') ''UNSRegistry'') f
               = field (field (field sample_record ''contracts'') ''UNSRegistry'') f"
    by (elim exE conjE)
  have o: "field (field config' ''contracts'') ''MintingManager''
        = field (field sample_record ''contracts'') ''MintingManager''"
    by (rule others [rule_format]) simp
  have f: "field (field (field config' ''contracts'') ''UNSRegistry'')
        ''legacyAddresses''
        = field (field (field sample_record ''contracts'') ''UNSRegistry'') ''legacyAddresses''"
    by (rule fields [rule_format]) simp
  from save sample_getDeployConfig is_json_sample_record get o f legacy
  show ?thesis by (intro exI [of _ w'] exI [of _ config'] conjI) (simp_all only:)
qed

end
